theory Spec2Isabelle
  imports Main
begin

section \<open>Python values used by the backend\<close>

text \<open>
  The backend is Python. Its \<open>str\<close> values are modelled as \<open>string\<close>; a \<open>char\<close> is
  read as a code point below 256, so \<open>length\<close> counts what Python's \<open>len\<close> counts on such
  text. \<open>str.strip()\<close> with no argument removes the characters for which \<open>str.isspace\<close>
  holds from both ends; below 256 these are the code points listed in \<open>whitespace\<close>.
\<close>

definition whitespace :: "char list" where
  "whitespace =
     [CHR 0x09, CHR 0x0A, CHR 0x0B, CHR 0x0C, CHR 0x0D, CHR 0x1C, CHR 0x1D, CHR 0x1E,
      CHR 0x1F, CHR 0x20, CHR 0x85, CHR 0xA0]"

definition py_isspace :: "char \<Rightarrow> bool" where
  "py_isspace c = (c \<in> set whitespace)"

definition py_strip :: "string \<Rightarrow> string" where
  "py_strip s = rev (dropWhile py_isspace (rev (dropWhile py_isspace s)))"

text \<open>
  The exceptions that travel through the backend. \<open>AuthenticationError\<close> and
  \<open>RateLimitError\<close> are subclasses of \<open>OpenAIError\<close> in the provider's library; the
  constructor \<open>OpenAIError\<close> stands for every other instance of that class.
  \<open>HTTPException\<close> is the web framework's exception (a direct subclass of \<open>Exception\<close>)
  and \<open>OtherException\<close> is any exception of a class that none of the handlers names.
  The string is the exception's message, \<open>str(e)\<close>.
\<close>

datatype exc =
    ValueError string
  | FileNotFoundError string
  | AuthenticationError string
  | RateLimitError string
  | OpenAIError string
  | HTTPException nat string
  | OtherException string

fun is_ValueError :: "exc \<Rightarrow> bool" where
  "is_ValueError (ValueError m) = True"
| "is_ValueError e = False"

text \<open>
  A Python \<open>dict\<close> with \<open>str\<close> keys keeps its keys in insertion order: assigning to a key
  that is present replaces the value where the key stands; assigning to a new key puts it
  at the end; \<open>del\<close> removes the key. The dictionary is an association list in that order.
\<close>

type_synonym 'v dict = "(string \<times> 'v) list"

fun dict_set :: "string \<Rightarrow> 'v \<Rightarrow> 'v dict \<Rightarrow> 'v dict" where
  "dict_set k v [] = [(k, v)]"
| "dict_set k v (p # d) = (if fst p = k then (k, v) # d else p # dict_set k v d)"

definition dict_del :: "string \<Rightarrow> 'v dict \<Rightarrow> 'v dict" where
  "dict_del k d = filter (\<lambda>p. fst p \<noteq> k) d"

definition dict_keys :: "'v dict \<Rightarrow> string list" where
  "dict_keys d = map fst d"

definition dict_get :: "'v dict \<Rightarrow> string \<Rightarrow> 'v option" where
  "dict_get d k = map_of d k"

section \<open>The state: the handler's registry and the storage\<close>

text \<open>
  \<open>DocumentHandler.processed_docs\<close> maps a file name to the record written in
  \<open>process_document\<close>. The storage holds the uploaded sources and the pickled vector
  stores under their paths, and the pickled registry under the fixed path
  \<open>vectorstore/processed_docs_metadata.pkl\<close>. The registry artifact is a component of its
  own: no source or index of a document is taken to live at that path. A vector store
  artifact is represented by the chunks it was built from; \<open>Truncated\<close> is the emptied
  file that \<open>open(path, 'wb')\<close> leaves when the dump that follows it raises. A
  \<open>SourceFile\<close> is an uploaded PDF.
\<close>

type_synonym path = string

record doc_info =
  file_path :: path
  vectorstore_path :: path
  chunks_count :: nat
  status :: string

type_synonym registry = "doc_info dict"

datatype artifact = SourceFile | IndexFile "string list" | Truncated

datatype metadata_file = NoFile | Unreadable | Pickled registry

record state =
  processed_docs :: registry
  files :: "path \<rightharpoonup> artifact"
  metadata_pkl :: metadata_file

text \<open>
  What the surroundings do is an input of each operation. A write
  \<open>with open(p, 'wb') as f: pickle.dump(x, f)\<close> either completes, or \<open>open\<close> raises (the
  file keeps its content), or the dump raises (the file is left truncated).
\<close>

datatype write_outcome = Written | OpenRaises exc | DumpRaises exc

section \<open>PDFLoader (utils/pdf\_loader.py)\<close>

text \<open>
  \<open>split_text_into_chunks\<close>: the library's splitter, a parameter here, followed by the
  filter on the stripped length.
\<close>

definition split_text_into_chunks :: "(string \<Rightarrow> string list) \<Rightarrow> string \<Rightarrow> string list" where
  "split_text_into_chunks split_text text =
     filter (\<lambda>chunk. length (py_strip chunk) > 50) (split_text text)"

text \<open>
  \<open>load_and_split\<close>: \<open>extract_text_from_pdf\<close> raises or returns the text (its outcome is
  the argument \<open>extracted\<close>); every exception is logged and raised again.
\<close>

definition load_and_split ::
  "(string \<Rightarrow> string list) \<Rightarrow> exc + string \<Rightarrow> exc + string list" where
  "load_and_split split_text extracted =
     (case extracted of
        Inl e \<Rightarrow> Inl e
      | Inr text \<Rightarrow>
          if py_strip text = [] then Inr []
          else (let chunks = split_text_into_chunks split_text text
                in if chunks = [] then Inr [] else Inr chunks))"

section \<open>RAGChain.create\_vectorstore (g\_chain.py)\<close>

text \<open>
  The inner \<open>try\<close> around \<open>FAISS.from_documents\<close> turns the provider's exceptions into
  \<open>ValueError\<close>s; an exception of another class leaves the inner \<open>try\<close> as it is.
\<close>

fun classify_provider_error :: "exc \<Rightarrow> exc" where
  "classify_provider_error (AuthenticationError m) =
     ValueError ''OpenAI authentication failed. Please check your API key.''"
| "classify_provider_error (RateLimitError m) =
     ValueError ''OpenAI quota exceeded. Please try again later.''"
| "classify_provider_error (OpenAIError m) =
     ValueError ''OpenAI service error. Please try again later.''"
| "classify_provider_error e = e"

text \<open>The outer handlers: a \<open>ValueError\<close> is raised again, anything else returns \<open>False\<close>.\<close>

definition reraise_ValueError :: "exc \<Rightarrow> exc + bool" where
  "reraise_ValueError e = (if is_ValueError e then Inl e else Inr False)"

definition create_vectorstore ::
  "exc option \<Rightarrow> write_outcome \<Rightarrow> string list \<Rightarrow> path \<Rightarrow> (path \<rightharpoonup> artifact)
     \<Rightarrow> (exc + bool) \<times> (path \<rightharpoonup> artifact)" where
  "create_vectorstore embedding index_write text_chunks vs_path fs =
     (case embedding of
        Some e \<Rightarrow> (reraise_ValueError (classify_provider_error e), fs)
      | None \<Rightarrow>
          (case index_write of
             Written \<Rightarrow> (Inr True, fs(vs_path \<mapsto> IndexFile text_chunks))
           | OpenRaises e \<Rightarrow> (reraise_ValueError e, fs)
           | DumpRaises e \<Rightarrow> (reraise_ValueError e, fs(vs_path \<mapsto> Truncated))))"

section \<open>DocumentHandler (document\_handler.py)\<close>

definition metadata_path :: path where
  "metadata_path = ''vectorstore/processed_docs_metadata.pkl''"

text \<open>\<open>_save_metadata\<close>: every exception of the write is logged and dropped.\<close>

definition save_metadata :: "write_outcome \<Rightarrow> state \<Rightarrow> state" where
  "save_metadata w s =
     (case w of
        Written \<Rightarrow> s\<lparr>metadata_pkl := Pickled (processed_docs s)\<rparr>
      | OpenRaises e \<Rightarrow> s
      | DumpRaises e \<Rightarrow> s\<lparr>metadata_pkl := Unreadable\<rparr>)"

text \<open>
  \<open>_load_metadata\<close>: a registry file that is there and loads replaces the registry in
  memory; one that cannot be read empties it; with no file nothing changes.
\<close>

definition load_metadata :: "state \<Rightarrow> state" where
  "load_metadata s =
     (case metadata_pkl s of
        NoFile \<Rightarrow> s
      | Pickled r \<Rightarrow> s\<lparr>processed_docs := r\<rparr>
      | Unreadable \<Rightarrow> s\<lparr>processed_docs := []\<rparr>)"

text \<open>
  The surroundings of one \<open>process_document\<close> call: the library's splitter, the outcome
  of the extraction, what \<open>FAISS.from_documents\<close> raises (\<open>None\<close> when it returns), and
  the outcomes of the two writes.
\<close>

record process_env =
  splitter :: "string \<Rightarrow> string list"
  extraction :: "exc + string"
  embedding :: "exc option"
  index_write :: write_outcome
  metadata_write :: write_outcome

definition vectorstore_path_of :: "string \<Rightarrow> path" where
  "vectorstore_path_of filename = ''vectorstore/'' @ filename @ ''_vectorstore.pkl''"

text \<open>
  \<open>process_document\<close> returns \<open>Inr True\<close> or \<open>Inr False\<close>, or raises (\<open>Inl\<close>): its handlers
  raise a \<open>ValueError\<close> again and turn every other exception into \<open>False\<close>.
\<close>

definition process_document ::
  "process_env \<Rightarrow> path \<Rightarrow> string \<Rightarrow> state \<Rightarrow> (exc + bool) \<times> state" where
  "process_document env fpath filename s =
     (case load_and_split (splitter env) (extraction env) of
        Inl e \<Rightarrow> (reraise_ValueError e, s)
      | Inr text_chunks \<Rightarrow>
          if text_chunks = [] then (Inr False, s)
          else
            (let vs_path = vectorstore_path_of filename;
                 (r, fs) = create_vectorstore (embedding env) (index_write env)
                             text_chunks vs_path (files s);
                 s1 = s\<lparr>files := fs\<rparr>
             in case r of
                  Inl e \<Rightarrow> (reraise_ValueError e, s1)
                | Inr success \<Rightarrow>
                    if success then
                      (let s2 = s1\<lparr>processed_docs :=
                                dict_set filename
                                  \<lparr>file_path = fpath, vectorstore_path = vs_path,
                                   chunks_count = length text_chunks,
                                   status = ''processed''\<rparr>
                                  (processed_docs s1)\<rparr>
                       in (Inr True, save_metadata (metadata_write env) s2))
                    else (Inr False, s1)))"

text \<open>
  The surroundings of one \<open>delete_document\<close> call: what each \<open>os.remove\<close> raises when
  it is called (\<open>None\<close> when it returns), and the outcome of the registry write.
\<close>

record delete_env =
  remove_vectorstore :: "exc option"
  remove_file :: "exc option"
  registry_write :: write_outcome

text \<open>\<open>if os.path.exists(p): os.remove(p)\<close>\<close>

definition remove_if_exists ::
  "exc option \<Rightarrow> path \<Rightarrow> (path \<rightharpoonup> artifact) \<Rightarrow> exc + (path \<rightharpoonup> artifact)" where
  "remove_if_exists raised p fs =
     (if fs p = None then Inr fs
      else (case raised of Some e \<Rightarrow> Inl e | None \<Rightarrow> Inr (fs(p := None))))"

text \<open>\<open>delete_document\<close>: every exception is logged and the call returns \<open>False\<close>.\<close>

definition delete_document :: "delete_env \<Rightarrow> string \<Rightarrow> state \<Rightarrow> bool \<times> state" where
  "delete_document env filename s =
     (case dict_get (processed_docs s) filename of
        None \<Rightarrow> (False, s)
      | Some info \<Rightarrow>
          (case remove_if_exists (remove_vectorstore env) (vectorstore_path info) (files s) of
             Inl e \<Rightarrow> (False, s)
           | Inr fs1 \<Rightarrow>
               (case remove_if_exists (remove_file env) (file_path info) fs1 of
                  Inl e \<Rightarrow> (False, s\<lparr>files := fs1\<rparr>)
                | Inr fs2 \<Rightarrow>
                    (True,
                     save_metadata (registry_write env)
                       (s\<lparr>files := fs2,
                          processed_docs := dict_del filename (processed_docs s)\<rparr>)))))"

section \<open>RAGChain.query (g\_chain.py)\<close>

text \<open>
  A retrieved document has its text and its metadata. The chain (retrieval, then the
  completion) is the provider's: given the chunks of the loaded store and the question it
  raises, or returns the answer and the retrieved documents.
\<close>

record document =
  page_content :: string
  doc_metadata :: "(string \<times> string) list"

record source =
  content :: string
  metadata :: "(string \<times> string) list"

record rag_response =
  rag_answer :: string
  rag_sources :: "source list"
  rag_question :: string

type_synonym chain = "string list \<Rightarrow> string \<Rightarrow> exc + string \<times> document list"

text \<open>
  \<open>doc.page_content[:200] + "..." if len(doc.page_content) > 200 else doc.page_content\<close>;
  the conditional expression binds weaker than \<open>+\<close>.
\<close>

definition source_of :: "document \<Rightarrow> source" where
  "source_of doc =
     \<lparr>content = (if length (page_content doc) > 200 then take 200 (page_content doc) @ ''...''
                 else page_content doc),
      metadata = doc_metadata doc\<rparr>"

text \<open>
  \<open>repr\<close> of a \<open>str\<close> with code points below 256: double quotes when the text has an
  apostrophe and no double quote, single quotes otherwise; a backslash before a backslash
  and before the quote in use; tab, newline and carriage return as a backslash and the
  letter; every other code point that is not printable as a backslash, \<open>x\<close> and two
  hexadecimal digits.
\<close>

definition hex_digit :: "nat \<Rightarrow> char" where
  "hex_digit n = ''0123456789abcdef'' ! (n mod 16)"

definition py_printable :: "char \<Rightarrow> bool" where
  "py_printable c =
     (let n = (of_char c :: nat) in (32 \<le> n \<and> n < 127) \<or> (161 \<le> n \<and> n \<noteq> 173))"

definition repr_char :: "char \<Rightarrow> char \<Rightarrow> string" where
  "repr_char q c =
     (if c = CHR 0x5C then [CHR 0x5C, CHR 0x5C]
      else if c = q then [CHR 0x5C, q]
      else if c = CHR 0x09 then [CHR 0x5C, CHR ''t'']
      else if c = CHR 0x0A then [CHR 0x5C, CHR ''n'']
      else if c = CHR 0x0D then [CHR 0x5C, CHR ''r'']
      else if py_printable c then [c]
      else [CHR 0x5C, CHR ''x'', hex_digit (of_char c div 16), hex_digit (of_char c)])"

definition py_repr :: "string \<Rightarrow> string" where
  "py_repr s =
     (let q = (if CHR 0x27 \<in> set s \<and> CHR 0x22 \<notin> set s then CHR 0x22 else CHR 0x27)
      in [q] @ concat (map (repr_char q) s) @ [q])"

text \<open>
  \<open>open(vectorstore_path, 'rb')\<close> and \<open>pickle.load\<close>. A missing file makes \<open>open\<close> raise
  \<open>FileNotFoundError\<close>; an empty file makes \<open>pickle.load\<close> raise \<open>EOFError\<close>; a PDF
  starts with a percent sign, which is no pickle opcode, and makes it raise
  \<open>UnpicklingError\<close>.
\<close>

definition load_vectorstore :: "path \<Rightarrow> (path \<rightharpoonup> artifact) \<Rightarrow> exc + string list" where
  "load_vectorstore p fs =
     (case fs p of
        None \<Rightarrow> Inl (FileNotFoundError (''[Errno 2] No such file or directory: '' @ py_repr p))
      | Some (IndexFile chunks) \<Rightarrow> Inr chunks
      | Some Truncated \<Rightarrow> Inl (OtherException ''Ran out of input'')
      | Some SourceFile \<Rightarrow> Inl (OtherException (''invalid load key, '' @ py_repr ''%'' @ ''.'')))"

definition rag_query ::
  "chain \<Rightarrow> string \<Rightarrow> path \<Rightarrow> (path \<rightharpoonup> artifact) \<Rightarrow> exc + rag_response" where
  "rag_query qa_chain question vs_path fs =
     (case load_vectorstore vs_path fs of
        Inl e \<Rightarrow> Inl e
      | Inr chunks \<Rightarrow>
          (case qa_chain chunks question of
             Inl e \<Rightarrow> Inl (classify_provider_error e)
           | Inr (result, source_documents) \<Rightarrow>
               Inr \<lparr>rag_answer = result,
                    rag_sources = map source_of source_documents,
                    rag_question = question\<rparr>))"

section \<open>DocumentHandler.query\_document\<close>

record query_result =
  answer :: string
  sources :: "source list"
  document :: string

text \<open>\<open>not filename\<close>: \<open>None\<close> and the empty string are both false.\<close>

definition given :: "string option \<Rightarrow> bool" where
  "given filename = (case filename of None \<Rightarrow> False | Some n \<Rightarrow> n \<noteq> [])"

text \<open>
  The text of \<open>list(self.processed_docs.keys())\<close> inside the message: the \<open>repr\<close> of each
  name, separated by a comma and a blank (the brackets are added in \<open>not_found\<close>).
\<close>

fun repr_names :: "string list \<Rightarrow> string" where
  "repr_names [] = []"
| "repr_names [k] = py_repr k"
| "repr_names (k # ks) = py_repr k @ '', '' @ repr_names ks"

definition not_found :: "registry \<Rightarrow> exc" where
  "not_found docs =
     ValueError (''Document not found. Available: ['' @ repr_names (dict_keys docs) @ '']'')"

text \<open>
  Lines 74 to 76: with no file name and a registry that is not empty, the file name is the
  last key of the registry.
\<close>

definition resolve_filename :: "string option \<Rightarrow> registry \<Rightarrow> string option" where
  "resolve_filename filename docs =
     (if \<not> given filename \<and> docs \<noteq> [] then Some (last (dict_keys docs)) else filename)"

definition query_document ::
  "chain \<Rightarrow> string \<Rightarrow> string option \<Rightarrow> state \<Rightarrow> (exc + query_result) \<times> state" where
  "query_document qa_chain question filename s =
     (let s1 = (if processed_docs s = [] then load_metadata s else s);
          docs = processed_docs s1
      in case resolve_filename filename docs of
           None \<Rightarrow> (Inl (not_found docs), s1)
         | Some name \<Rightarrow>
             if name = [] then (Inl (not_found docs), s1)
             else
               (case dict_get docs name of
                  None \<Rightarrow> (Inl (not_found docs), s1)
                | Some info \<Rightarrow>
                    if files s1 (vectorstore_path info) = None
                    then (Inl (FileNotFoundError (''Vectorstore missing for document: '' @ name)), s1)
                    else
                      (case rag_query qa_chain question (vectorstore_path info) (files s1) of
                         Inl e \<Rightarrow> (Inl e, s1)
                       | Inr response \<Rightarrow>
                           (Inr \<lparr>answer = rag_answer response,
                                 sources = rag_sources response,
                                 document = name\<rparr>, s1))))"

definition get_processed_documents :: "state \<Rightarrow> string list \<times> state" where
  "get_processed_documents s =
     (let s1 = (if processed_docs s = [] then load_metadata s else s)
      in (dict_keys (processed_docs s1), s1))"

section \<open>The /query endpoint (main.py)\<close>

text \<open>
  \<open>str.lower()\<close> on code points below 256, \<open>x in y\<close> on strings, and the decimal text
  of a status code.
\<close>

definition py_lower_char :: "char \<Rightarrow> char" where
  "py_lower_char c =
     (let n = (of_char c :: nat)
      in if (65 \<le> n \<and> n \<le> 90) \<or> (192 \<le> n \<and> n \<le> 222 \<and> n \<noteq> 215)
         then char_of (n + 32) else c)"

definition py_lower :: "string \<Rightarrow> string" where
  "py_lower s = map py_lower_char s"

fun starts_with :: "string \<Rightarrow> string \<Rightarrow> bool" where
  "starts_with [] s = True"
| "starts_with (p # ps) [] = False"
| "starts_with (p # ps) (c # cs) = (p = c \<and> starts_with ps cs)"

fun contains :: "string \<Rightarrow> string \<Rightarrow> bool" where
  "contains sub [] = (sub = [])"
| "contains sub (c # cs) = (starts_with sub (c # cs) \<or> contains sub cs)"

fun str_nat :: "nat \<Rightarrow> string" where
  "str_nat n =
     (if n < 10 then [char_of (48 + n)] else str_nat (n div 10) @ [char_of (48 + n mod 10)])"

declare str_nat.simps [simp del]

text \<open>\<open>str(e)\<close>; for the framework's exception it is the status code, a colon and the detail.\<close>

fun exc_str :: "exc \<Rightarrow> string" where
  "exc_str (ValueError m) = m"
| "exc_str (FileNotFoundError m) = m"
| "exc_str (AuthenticationError m) = m"
| "exc_str (RateLimitError m) = m"
| "exc_str (OpenAIError m) = m"
| "exc_str (HTTPException code detail) = str_nat code @ '': '' @ detail"
| "exc_str (OtherException m) = m"

record query_request =
  question :: string
  filename :: "string option"

record query_response =
  resp_question :: string
  resp_answer :: string
  resp_sources :: "source list"
  resp_filename :: "string option"

text \<open>
  The handler of \<open>ValueError\<close>. A message that starts with a brace is passed to \<open>eval\<close>;
  what \<open>eval\<close> does is a parameter: it raises, or gives a dictionary, of which the handler
  reads the entry \<open>"error"\<close> (\<open>None\<close> when the key is missing). The handler raises an
  \<open>HTTPException\<close>, or the exception that \<open>eval\<close> or the subscript raised.
\<close>

definition on_ValueError :: "(string \<Rightarrow> exc + string option) \<Rightarrow> string \<Rightarrow> exc" where
  "on_ValueError py_eval msg =
     (case (if starts_with ''{'' msg then py_eval msg else Inr (Some msg)) of
        Inl e \<Rightarrow> e
      | Inr entry \<Rightarrow>
          (let err = (case entry of None \<Rightarrow> [] | Some m \<Rightarrow> m)
           in if contains ''quota exceeded'' (py_lower err) then HTTPException 429 err
              else if contains ''authentication'' (py_lower err) then HTTPException 401 err
              else (case entry of
                      None \<Rightarrow> OtherException ''KeyError''
                    | Some m \<Rightarrow> HTTPException 503 m)))"

text \<open>
  The endpoint: the body of the \<open>try\<close> raises or returns; \<open>except ValueError\<close> comes
  first, \<open>except Exception\<close> takes every other exception, the \<open>HTTPException\<close> raised
  in the body among them.
\<close>

definition query_endpoint ::
  "(string \<Rightarrow> exc + string option) \<Rightarrow> chain \<Rightarrow> query_request \<Rightarrow> state
     \<Rightarrow> (exc + query_response) \<times> state" where
  "query_endpoint py_eval qa_chain query_request s =
     (let (body, s1) =
            (if py_strip (question query_request) = []
             then (Inl (HTTPException 400 ''Question cannot be empty''), s)
             else (case query_document qa_chain (question query_request)
                          (filename query_request) s of
                     (Inl e, s') \<Rightarrow> (Inl e, s')
                   | (Inr response, s') \<Rightarrow>
                       (Inr \<lparr>resp_question = question query_request,
                             resp_answer = answer response,
                             resp_sources = sources response,
                             resp_filename = filename query_request\<rparr>, s')))
      in case body of
           Inr r \<Rightarrow> (Inr r, s1)
         | Inl (ValueError msg) \<Rightarrow> (Inl (on_ValueError py_eval msg), s1)
         | Inl e \<Rightarrow> (Inl (HTTPException 500 (''Error querying document: '' @ exc_str e)), s1))"

text \<open>
  The status code of the response: 200 for a returned value, the code of an
  \<open>HTTPException\<close>, and 500 for any other exception that leaves the endpoint.
\<close>

fun status_code :: "exc + 'a \<Rightarrow> nat" where
  "status_code (Inr r) = 200"
| "status_code (Inl (HTTPException code detail)) = code"
| "status_code (Inl e) = 500"

section \<open>Runs of the handler\<close>

text \<open>
  One handler serves a sequence of calls of \<open>process_document\<close> and \<open>delete_document\<close>,
  each in surroundings of its own. The state after a call is the state that the call
  leaves, whether it returned or raised. A call succeeded when it returned \<open>True\<close>.
\<close>

datatype call = Process process_env path string | Delete delete_env string

fun step :: "call \<Rightarrow> state \<Rightarrow> state" where
  "step (Process env fpath fname) s = snd (process_document env fpath fname s)"
| "step (Delete env fname) s = snd (delete_document env fname s)"

fun succeeded :: "call \<Rightarrow> state \<Rightarrow> bool" where
  "succeeded (Process env fpath fname) s = (fst (process_document env fpath fname s) = Inr True)"
| "succeeded (Delete env fname) s = fst (delete_document env fname s)"

fun run :: "call list \<Rightarrow> state \<Rightarrow> state" where
  "run [] s = s"
| "run (c # cs) s = run cs (step c s)"

text \<open>
  In the words of claim C1: the document of the last \<open>process\<close> call of a run that
  returned success (\<open>d\<close> is the document so far).
\<close>

fun last_processed :: "string option \<Rightarrow> call list \<Rightarrow> state \<Rightarrow> string option" where
  "last_processed d [] s = d"
| "last_processed d (Process env fpath fname # cs) s =
     last_processed (if succeeded (Process env fpath fname) s then Some fname else d) cs
       (step (Process env fpath fname) s)"
| "last_processed d (Delete env fname # cs) s = last_processed d cs (step (Delete env fname) s)"

text \<open>
  The documents processed with success and not deleted since, the one processed most
  recently last (\<open>ds\<close> are the documents so far).
\<close>

fun recent_documents :: "string list \<Rightarrow> call list \<Rightarrow> state \<Rightarrow> string list" where
  "recent_documents ds [] s = ds"
| "recent_documents ds (Process env fpath fname # cs) s =
     recent_documents
       (if succeeded (Process env fpath fname) s
        then filter (\<lambda>d. d \<noteq> fname) ds @ [fname] else ds)
       cs (step (Process env fpath fname) s)"
| "recent_documents ds (Delete env fname # cs) s =
     recent_documents
       (if succeeded (Delete env fname) s then filter (\<lambda>d. d \<noteq> fname) ds else ds)
       cs (step (Delete env fname) s)"

text \<open>
  A run in which every \<open>process\<close> call that succeeds is for a name that the registry does
  not hold at the time of the call.
\<close>

fun inserts_only :: "call list \<Rightarrow> state \<Rightarrow> bool" where
  "inserts_only [] s = True"
| "inserts_only (Process env fpath fname # cs) s =
     ((succeeded (Process env fpath fname) s \<longrightarrow>
         fname \<notin> set (dict_keys (processed_docs s))) \<and>
      inserts_only cs (step (Process env fpath fname) s))"
| "inserts_only (Delete env fname # cs) s = inserts_only cs (step (Delete env fname) s)"

section \<open>Concrete inputs\<close>

text \<open>
  A text of 62 characters, a splitter that returns the text as one segment, a handler that
  has processed nothing on an empty storage, and surroundings in which every step of
  \<open>process_document\<close> goes well.
\<close>

definition example_text :: string where
  "example_text = ''Retrieval augmented generation answers questions from context.''"

definition whole_text :: "string \<Rightarrow> string list" where
  "whole_text t = [t]"

definition fresh :: state where
  "fresh = \<lparr>processed_docs = [], files = Map.empty, metadata_pkl = NoFile\<rparr>"

definition env_ok :: process_env where
  "env_ok = \<lparr>splitter = whole_text, extraction = Inr example_text, embedding = None,
             index_write = Written, metadata_write = Written\<rparr>"


text \<open>
  A handler that has processed \<open>a.pdf\<close> into three chunks: the example text, a chunk of
  203 characters that ends with three dots, and a chunk of 250 characters. The source, the
  index and the registry file are in the storage. In \<open>index_lost_a\<close> the index has been
  removed from the storage behind the handler's back.
\<close>

definition ellipsis_chunk :: string where
  "ellipsis_chunk = replicate 200 (CHR ''a'') @ ''...''"

definition long_chunk :: string where
  "long_chunk = replicate 250 (CHR ''x'')"

definition record_a :: doc_info where
  "record_a = \<lparr>file_path = ''uploaded_files/a.pdf'',
               vectorstore_path = ''vectorstore/a.pdf_vectorstore.pkl'',
               chunks_count = 3, status = ''processed''\<rparr>"

definition indexed_a :: state where
  "indexed_a =
     \<lparr>processed_docs = [(''a.pdf'', record_a)],
      files = [''uploaded_files/a.pdf'' \<mapsto> SourceFile,
               ''vectorstore/a.pdf_vectorstore.pkl'' \<mapsto>
                 IndexFile [example_text, ellipsis_chunk, long_chunk]],
      metadata_pkl = Pickled [(''a.pdf'', record_a)]\<rparr>"

definition index_lost_a :: state where
  "index_lost_a = indexed_a\<lparr>files := [''uploaded_files/a.pdf'' \<mapsto> SourceFile]\<rparr>"

text \<open>A chain that answers and returns the first four chunks of the store as retrieved.\<close>

definition chain_top4 :: chain where
  "chain_top4 chunks q =
     Inr (''answer'', map (\<lambda>c. \<lparr>page_content = c, doc_metadata = []\<rparr>) (take 4 chunks))"

text \<open>
  Surroundings of \<open>delete_document\<close>: nothing raises; removing the index raises; removing
  the source raises.
\<close>

definition delete_ok :: delete_env where
  "delete_ok = \<lparr>remove_vectorstore = None, remove_file = None, registry_write = Written\<rparr>"

definition delete_index_locked :: delete_env where
  "delete_index_locked = delete_ok\<lparr>remove_vectorstore := Some (OtherException ''Permission denied'')\<rparr>"

definition delete_source_locked :: delete_env where
  "delete_source_locked = delete_ok\<lparr>remove_file := Some (OtherException ''Permission denied'')\<rparr>"

text \<open>
  Surroundings of \<open>delete_document\<close> in which opening the registry file for writing
  raises, and the handler of \<open>indexed_a\<close> after a restart: nothing in memory, the storage
  and the registry file as they were.
\<close>

definition delete_registry_unwritable :: delete_env where
  "delete_registry_unwritable =
     delete_ok\<lparr>registry_write := OpenRaises (OtherException ''No space left on device'')\<rparr>"

definition restarted_a :: state where
  "restarted_a = indexed_a\<lparr>processed_docs := []\<rparr>"

text \<open>An \<open>eval\<close> that raises on every text.\<close>

definition eval_raises :: "string \<Rightarrow> exc + string option" where
  "eval_raises m = Inl (OtherException ''invalid syntax'')"

text \<open>What the query for \<open>a.pdf\<close> returns on \<open>indexed_a\<close> with this chain.\<close>

definition result_a :: query_result where
  "result_a =
     \<lparr>answer = ''answer'',
      sources = [\<lparr>content = example_text, metadata = []\<rparr>,
                 \<lparr>content = ellipsis_chunk, metadata = []\<rparr>,
                 \<lparr>content = replicate 200 (CHR ''x'') @ ''...'', metadata = []\<rparr>],
      document = ''a.pdf''\<rparr>"

text \<open>
  Surroundings in which the embedding provider rejects the key, and surroundings in which
  the extraction yields blanks only.
\<close>

definition env_auth :: process_env where
  "env_auth = env_ok\<lparr>embedding := Some (AuthenticationError ''Incorrect API key provided'')\<rparr>"

definition env_blank :: process_env where
  "env_blank = env_ok\<lparr>extraction := Inr ''   ''\<rparr>"

text \<open>
  A new handler with two uploads in the storage, and three runs on it. In the first
  \<open>a.pdf\<close> is processed, then \<open>b.pdf\<close>, then \<open>a.pdf\<close> once more. In the second \<open>a.pdf\<close> and
  \<open>b.pdf\<close> are processed and \<open>b.pdf\<close> is deleted. In the third \<open>a.pdf\<close> is processed, a
  first attempt on \<open>b.pdf\<close> raises, a second one succeeds, a document without text fails,
  and \<open>a.pdf\<close> is deleted.
\<close>

definition uploaded :: state where
  "uploaded =
     \<lparr>processed_docs = [],
      files = [''uploaded_files/a.pdf'' \<mapsto> SourceFile, ''uploaded_files/b.pdf'' \<mapsto> SourceFile],
      metadata_pkl = NoFile\<rparr>"

definition run_a_b_a :: "call list" where
  "run_a_b_a =
     [Process env_ok ''uploaded_files/a.pdf'' ''a.pdf'',
      Process env_ok ''uploaded_files/b.pdf'' ''b.pdf'',
      Process env_ok ''uploaded_files/a.pdf'' ''a.pdf'']"

definition run_a_b_delete_b :: "call list" where
  "run_a_b_delete_b =
     [Process env_ok ''uploaded_files/a.pdf'' ''a.pdf'',
      Process env_ok ''uploaded_files/b.pdf'' ''b.pdf'',
      Delete delete_ok ''b.pdf'']"

definition run_with_failures :: "call list" where
  "run_with_failures =
     [Process env_ok ''uploaded_files/a.pdf'' ''a.pdf'',
      Process env_auth ''uploaded_files/b.pdf'' ''b.pdf'',
      Process env_ok ''uploaded_files/b.pdf'' ''b.pdf'',
      Process env_blank ''uploaded_files/c.pdf'' ''c.pdf'',
      Delete delete_ok ''a.pdf'']"

text \<open>The records and the states that these runs go through.\<close>

definition processed_a :: doc_info where
  "processed_a = \<lparr>file_path = ''uploaded_files/a.pdf'',
                  vectorstore_path = ''vectorstore/a.pdf_vectorstore.pkl'',
                  chunks_count = 1, status = ''processed''\<rparr>"

definition processed_b :: doc_info where
  "processed_b = \<lparr>file_path = ''uploaded_files/b.pdf'',
                  vectorstore_path = ''vectorstore/b.pdf_vectorstore.pkl'',
                  chunks_count = 1, status = ''processed''\<rparr>"

definition after_a :: state where
  "after_a =
     \<lparr>processed_docs = [(''a.pdf'', processed_a)],
      files = [''uploaded_files/a.pdf'' \<mapsto> SourceFile, ''uploaded_files/b.pdf'' \<mapsto> SourceFile,
               ''vectorstore/a.pdf_vectorstore.pkl'' \<mapsto> IndexFile [example_text]],
      metadata_pkl = Pickled [(''a.pdf'', processed_a)]\<rparr>"

definition after_a_b :: state where
  "after_a_b =
     \<lparr>processed_docs = [(''a.pdf'', processed_a), (''b.pdf'', processed_b)],
      files = [''uploaded_files/a.pdf'' \<mapsto> SourceFile, ''uploaded_files/b.pdf'' \<mapsto> SourceFile,
               ''vectorstore/a.pdf_vectorstore.pkl'' \<mapsto> IndexFile [example_text],
               ''vectorstore/b.pdf_vectorstore.pkl'' \<mapsto> IndexFile [example_text]],
      metadata_pkl = Pickled [(''a.pdf'', processed_a), (''b.pdf'', processed_b)]\<rparr>"

definition only_a :: state where
  "only_a =
     \<lparr>processed_docs = [(''a.pdf'', processed_a)],
      files = [''uploaded_files/a.pdf'' \<mapsto> SourceFile,
               ''vectorstore/a.pdf_vectorstore.pkl'' \<mapsto> IndexFile [example_text]],
      metadata_pkl = Pickled [(''a.pdf'', processed_a)]\<rparr>"

definition only_b :: state where
  "only_b =
     \<lparr>processed_docs = [(''b.pdf'', processed_b)],
      files = [''uploaded_files/b.pdf'' \<mapsto> SourceFile,
               ''vectorstore/b.pdf_vectorstore.pkl'' \<mapsto> IndexFile [example_text]],
      metadata_pkl = Pickled [(''b.pdf'', processed_b)]\<rparr>"

text \<open>The result of a query that is answered from the one chunk of a document.\<close>

definition answer_from :: "string \<Rightarrow> query_result" where
  "answer_from name =
     \<lparr>answer = ''answer'', sources = [\<lparr>content = example_text, metadata = []\<rparr>],
      document = name\<rparr>"

section \<open>Facts about the Python values\<close>

lemma py_strip_blank: "(py_strip t = []) = (\<forall>c\<in>set t. py_isspace c)"
proof
  assume "py_strip t = []"
  then have all: "\<forall>c\<in>set (dropWhile py_isspace t). py_isspace c"
    by (simp add: py_strip_def)
  have "dropWhile py_isspace t = []"
  proof (rule ccontr)
    assume ne: "dropWhile py_isspace t \<noteq> []"
    then have "\<not> py_isspace (hd (dropWhile py_isspace t))" by (rule hd_dropWhile)
    moreover have "hd (dropWhile py_isspace t) \<in> set (dropWhile py_isspace t)"
      using ne by (rule hd_in_set)
    ultimately show False using all by blast
  qed
  then show "\<forall>c\<in>set t. py_isspace c" by simp
next
  assume "\<forall>c\<in>set t. py_isspace c"
  then show "py_strip t = []" by (auto simp: py_strip_def dest: set_dropWhileD)
qed


lemma dict_get_dict_set_other: "k' \<noteq> k \<Longrightarrow> dict_get (dict_set k v d) k' = dict_get d k'"
  by (induction d) (auto simp: dict_get_def)

lemma dict_keys_dict_set:
  "dict_keys (dict_set k v d) =
     (if k \<in> set (dict_keys d) then dict_keys d else dict_keys d @ [k])"
  by (induction d) (auto simp: dict_keys_def)

lemma distinct_dict_set:
  "distinct (dict_keys d) \<Longrightarrow> distinct (dict_keys (dict_set k v d))"
  by (simp add: dict_keys_dict_set)

lemma dict_get_nonempty: "dict_get d k = Some v \<Longrightarrow> d \<noteq> []"
  by (auto simp: dict_get_def)

lemma dict_get_dict_del: "dict_get (dict_del k d) k = None"
  by (induction d) (auto simp: dict_get_def dict_del_def)

lemma dict_get_dict_del_other: "k' \<noteq> k \<Longrightarrow> dict_get (dict_del k d) k' = dict_get d k'"
  by (induction d) (auto simp: dict_get_def dict_del_def)

lemma str_nat_400: "str_nat 400 = ''400''"
  by code_simp

section \<open>Facts about the loader and the index builder\<close>

lemma split_text_into_chunks_long:
  "c \<in> set (split_text_into_chunks sp text) \<Longrightarrow> 50 < length (py_strip c)"
  by (simp add: split_text_into_chunks_def)

lemma load_and_split_long:
  "load_and_split sp ex = Inr chunks \<Longrightarrow> c \<in> set chunks \<Longrightarrow> 50 < length (py_strip c)"
  by (auto simp: load_and_split_def Let_def split_text_into_chunks_long
           split: sum.splits if_splits)

lemma create_vectorstore_raises:
  "create_vectorstore (Some e) w chunks p fs =
     (reraise_ValueError (classify_provider_error e), fs)"
  by (simp add: create_vectorstore_def)

lemma create_vectorstore_files:
  "snd (create_vectorstore e w chunks p fs) = fs \<or>
   snd (create_vectorstore e w chunks p fs) = fs(p \<mapsto> IndexFile chunks) \<or>
   snd (create_vectorstore e w chunks p fs) = fs(p \<mapsto> Truncated)"
  by (cases e; cases w) (simp_all add: create_vectorstore_def)

section \<open>Facts about the registry file\<close>

lemma files_save_metadata: "files (save_metadata w s) = files s"
  by (cases w) (simp_all add: save_metadata_def)

lemma processed_docs_save_metadata: "processed_docs (save_metadata w s) = processed_docs s"
  by (cases w) (simp_all add: save_metadata_def)

lemma files_load_metadata: "files (load_metadata s) = files s"
  by (cases "metadata_pkl s") (simp_all add: load_metadata_def)

lemma remove_absent: "files s p = None \<Longrightarrow> s\<lparr>files := (files s)(p := None)\<rparr> = s"
  by (cases s) (simp add: fun_upd_idem_iff)

section \<open>Facts about delete\_document\<close>

text \<open>A name that the list operation does not show has no record in memory.\<close>

lemma unlisted_has_no_record:
  assumes "fname \<notin> set (fst (get_processed_documents s))"
  shows "dict_get (processed_docs s) fname = None"
proof (cases "processed_docs s = []")
  case True
  then show ?thesis by (simp add: dict_get_def)
next
  case False
  with assms have "fname \<notin> fst ` set (processed_docs s)"
    by (simp add: get_processed_documents_def dict_keys_def)
  then show ?thesis by (simp add: dict_get_def map_of_eq_None_iff)
qed

lemma delete_unlisted:
  assumes "fname \<notin> set (fst (get_processed_documents s))"
  shows "delete_document env fname s = (False, s)"
  using unlisted_has_no_record [OF assms] by (simp add: delete_document_def)

text \<open>
  The call for a name that the registry in memory holds, when no removal that is
  attempted raises: the index is removed when it is there, and so is the source.
\<close>

lemma delete_known_run:
  assumes "dict_get (processed_docs s) fname = Some info"
    and "files s (vectorstore_path info) = None \<or> remove_vectorstore env = None"
    and "files s (file_path info) = None \<or> file_path info = vectorstore_path info \<or>
         remove_file env = None"
  shows "delete_document env fname s =
           (True,
            save_metadata (registry_write env)
              (s\<lparr>files := (files s)(vectorstore_path info := None, file_path info := None),
                 processed_docs := dict_del fname (processed_docs s)\<rparr>))"
proof -
  have first: "remove_if_exists (remove_vectorstore env) (vectorstore_path info) (files s) =
                 Inr ((files s)(vectorstore_path info := None))"
    using assms(2) by (auto simp: remove_if_exists_def fun_upd_idem)
  have second: "remove_if_exists (remove_file env) (file_path info)
                  ((files s)(vectorstore_path info := None)) =
                Inr ((files s)(vectorstore_path info := None, file_path info := None))"
    using assms(3) by (auto simp: remove_if_exists_def fun_upd_idem)
  show ?thesis by (simp add: delete_document_def assms(1) first second)
qed

lemma delete_known:
  assumes "dict_get (processed_docs s) fname = Some info"
    and "files s (vectorstore_path info) = None \<or> remove_vectorstore env = None"
    and "files s (file_path info) = None \<or> file_path info = vectorstore_path info \<or>
         remove_file env = None"
  shows "fst (delete_document env fname s) = True \<and>
         files (snd (delete_document env fname s)) (vectorstore_path info) = None \<and>
         files (snd (delete_document env fname s)) (file_path info) = None \<and>
         (\<forall>p. p \<noteq> vectorstore_path info \<and> p \<noteq> file_path info \<longrightarrow>
              files (snd (delete_document env fname s)) p = files s p) \<and>
         processed_docs (snd (delete_document env fname s)) = dict_del fname (processed_docs s) \<and>
         dict_get (processed_docs (snd (delete_document env fname s))) fname = None \<and>
         (\<forall>k. k \<noteq> fname \<longrightarrow>
              dict_get (processed_docs (snd (delete_document env fname s))) k =
              dict_get (processed_docs s) k) \<and>
         metadata_pkl (snd (delete_document env fname s)) =
           (case registry_write env of
              Written \<Rightarrow> Pickled (dict_del fname (processed_docs s))
            | OpenRaises e \<Rightarrow> metadata_pkl s
            | DumpRaises e \<Rightarrow> Unreadable)"
  by (cases "registry_write env")
     (simp_all add: delete_known_run [OF assms] save_metadata_def dict_get_dict_del
        dict_get_dict_del_other)

section \<open>Facts about process\_document\<close>

text \<open>The run in which every step goes well, whatever the registry write does.\<close>

lemma process_document_success:
  assumes "load_and_split (splitter env) (extraction env) = Inr chunks" and "chunks \<noteq> []"
    and "embedding env = None" and "index_write env = Written"
  shows "process_document env fpath fname s =
           (Inr True,
            save_metadata (metadata_write env)
              (s\<lparr>files := (files s)(vectorstore_path_of fname \<mapsto> IndexFile chunks),
                 processed_docs :=
                   dict_set fname
                     \<lparr>file_path = fpath, vectorstore_path = vectorstore_path_of fname,
                      chunks_count = length chunks, status = ''processed''\<rparr>
                     (processed_docs s)\<rparr>))"
proof -
  have cv: "create_vectorstore (embedding env) (index_write env) chunks
              (vectorstore_path_of fname) (files s) =
            (Inr True, (files s)(vectorstore_path_of fname \<mapsto> IndexFile chunks))"
    using assms(3,4) by (simp add: create_vectorstore_def)
  show ?thesis
    using assms(2) by (simp add: process_document_def assms(1) cv Let_def)
qed

text \<open>What a call can do to the storage: nothing, a new index, or a truncated index.\<close>

lemma process_document_files:
  "files (snd (process_document env fpath fname s)) = files s \<or>
   (\<exists>chunks. load_and_split (splitter env) (extraction env) = Inr chunks \<and>
      files (snd (process_document env fpath fname s)) =
        (files s)(vectorstore_path_of fname \<mapsto> IndexFile chunks)) \<or>
   files (snd (process_document env fpath fname s)) =
     (files s)(vectorstore_path_of fname \<mapsto> Truncated)"
proof (cases "load_and_split (splitter env) (extraction env)")
  case (Inl e)
  then show ?thesis by (simp add: process_document_def)
next
  case (Inr chunks)
  show ?thesis
  proof (cases "chunks = []")
    case True
    with Inr show ?thesis by (simp add: process_document_def)
  next
    case False
    obtain r fs where cv: "create_vectorstore (embedding env) (index_write env) chunks
                             (vectorstore_path_of fname) (files s) = (r, fs)"
      by (cases "create_vectorstore (embedding env) (index_write env) chunks
                   (vectorstore_path_of fname) (files s)")
    have after: "files (snd (process_document env fpath fname s)) = fs"
      using False
      by (cases r) (simp_all add: process_document_def Inr cv Let_def files_save_metadata)
    from create_vectorstore_files [of "embedding env" "index_write env" chunks
           "vectorstore_path_of fname" "files s"]
    show ?thesis unfolding after cv using Inr by auto
  qed
qed

section \<open>Facts about the query\<close>

lemma source_of_content:
  "(length (page_content d) \<le> 200 \<longrightarrow> content (source_of d) = page_content d) \<and>
   (200 < length (page_content d) \<longrightarrow>
      content (source_of d) = take 200 (page_content d) @ ''...'') \<and>
   length (content (source_of d)) \<le> 203"
  by (simp add: source_of_def)

text \<open>When the caller's copy is the whole text.\<close>

lemma source_of_full_text:
  "(content (source_of d) = page_content d) =
   (length (page_content d) \<le> 200 \<or>
    length (page_content d) = 203 \<and> drop 200 (page_content d) = ''...'')"
proof (cases "length (page_content d) \<le> 200")
  case True
  then show ?thesis by (simp add: source_of_def)
next
  case False
  let ?t = "page_content d"
  have "(take 200 ?t @ ''...'' = ?t) = (take 200 ?t @ ''...'' = take 200 ?t @ drop 200 ?t)"
    by simp
  also have "\<dots> = (drop 200 ?t = ''...'')" by (simp only: same_append_eq) auto
  finally have eq: "(take 200 ?t @ ''...'' = ?t) = (drop 200 ?t = ''...'')" .
  have len: "drop 200 ?t = ''...'' \<Longrightarrow> length ?t = 203"
  proof -
    assume d: "drop 200 ?t = ''...''"
    have "length (drop 200 ?t) = length ?t - 200" by simp
    with d have "length ?t - 200 = 3" by simp
    then show "length ?t = 203" by simp
  qed
  from False eq len show ?thesis by (auto simp: source_of_def)
qed

text \<open>A query that returns has run the chain, and its sources are the chain's documents.\<close>

lemma query_document_returns:
  assumes "query_document qa q fn_opt s = (Inr r, s')"
  shows "\<exists>chunks ans docs. qa chunks q = Inr (ans, docs) \<and> answer r = ans \<and>
           sources r = map source_of docs"
  using assms
  by (fastforce simp: query_document_def Let_def rag_query_def
           split: option.splits if_splits sum.splits prod.splits)

section \<open>Facts about runs\<close>

lemma reraise_not_True: "reraise_ValueError e \<noteq> Inr True"
  by (simp add: reraise_ValueError_def)

lemma process_document_registry_keys:
  "dict_keys (processed_docs (snd (process_document env fpath fname s))) =
     (if fst (process_document env fpath fname s) = Inr True
      then (if fname \<in> set (dict_keys (processed_docs s)) then dict_keys (processed_docs s)
            else dict_keys (processed_docs s) @ [fname])
      else dict_keys (processed_docs s))"
proof (cases "load_and_split (splitter env) (extraction env)")
  case (Inl e)
  then show ?thesis by (simp add: process_document_def reraise_not_True)
next
  case (Inr chunks)
  show ?thesis
  proof (cases "chunks = []")
    case True
    with Inr show ?thesis by (simp add: process_document_def)
  next
    case False
    obtain r fs where cv: "create_vectorstore (embedding env) (index_write env) chunks
                             (vectorstore_path_of fname) (files s) = (r, fs)"
      by (cases "create_vectorstore (embedding env) (index_write env) chunks
                   (vectorstore_path_of fname) (files s)")
    show ?thesis
    proof (cases r)
      case (Inl e)
      with False show ?thesis
        by (simp add: process_document_def \<open>load_and_split _ _ = Inr chunks\<close> cv Let_def reraise_not_True)
    next
      case (Inr success)
      with False show ?thesis
        by (cases success)
           (simp_all add: process_document_def \<open>load_and_split _ _ = Inr chunks\<close> cv Let_def
              processed_docs_save_metadata dict_keys_dict_set)
    qed
  qed
qed

text \<open>A call that does not return \<open>True\<close> leaves the registry and its file as they were.\<close>

lemma failed_process_keeps_registry:
  assumes "fst (process_document env fpath fname s) \<noteq> Inr True"
  shows "processed_docs (snd (process_document env fpath fname s)) = processed_docs s \<and>
         metadata_pkl (snd (process_document env fpath fname s)) = metadata_pkl s"
proof (cases "load_and_split (splitter env) (extraction env)")
  case (Inl e)
  then show ?thesis by (simp add: process_document_def)
next
  case (Inr chunks)
  show ?thesis
  proof (cases "chunks = []")
    case True
    with Inr show ?thesis by (simp add: process_document_def)
  next
    case False
    obtain r fs where cv: "create_vectorstore (embedding env) (index_write env) chunks
                             (vectorstore_path_of fname) (files s) = (r, fs)"
      by (cases "create_vectorstore (embedding env) (index_write env) chunks
                   (vectorstore_path_of fname) (files s)")
    show ?thesis
    proof (cases r)
      case (Inl e)
      with False show ?thesis
        by (simp add: process_document_def \<open>load_and_split _ _ = Inr chunks\<close> cv Let_def)
    next
      case (Inr success)
      with False assms show ?thesis
        by (cases success)
           (simp_all add: process_document_def \<open>load_and_split _ _ = Inr chunks\<close> cv Let_def)
    qed
  qed
qed

text \<open>
  Processing a document again: the call succeeds for a name that the registry holds, and
  the keys stay in the order they had.
\<close>

lemma reprocessing_keeps_order:
  assumes "fst (process_document env fpath fname s) = Inr True"
    and "fname \<in> set (dict_keys (processed_docs s))"
  shows "dict_keys (processed_docs (snd (process_document env fpath fname s))) =
           dict_keys (processed_docs s)"
  using assms by (simp add: process_document_registry_keys)

lemma dict_keys_dict_del: "dict_keys (dict_del k d) = filter (\<lambda>x. x \<noteq> k) (dict_keys d)"
  by (induction d) (auto simp: dict_keys_def dict_del_def)

lemma delete_document_registry_keys:
  "dict_keys (processed_docs (snd (delete_document env fname s))) =
     (if fst (delete_document env fname s)
      then filter (\<lambda>d. d \<noteq> fname) (dict_keys (processed_docs s))
      else dict_keys (processed_docs s))"
  by (auto simp: delete_document_def remove_if_exists_def processed_docs_save_metadata
        dict_keys_dict_del split: option.splits sum.splits)

lemma filter_absent: "k \<notin> set ks \<Longrightarrow> filter (\<lambda>d. d \<noteq> k) ks = ks"
  by (induction ks) auto

lemma run_keys:
  "inserts_only cs s \<Longrightarrow>
   dict_keys (processed_docs (run cs s)) = recent_documents (dict_keys (processed_docs s)) cs s"
proof (induction cs arbitrary: s)
  case Nil
  then show ?case by simp
next
  case (Cons c cs)
  show ?case
  proof (cases c)
    case (Process env fpath fname)
    with Cons.prems
    have new: "succeeded (Process env fpath fname) s \<longrightarrow> fname \<notin> set (dict_keys (processed_docs s))"
      and rest: "inserts_only cs (step c s)"
      by simp_all
    have "dict_keys (processed_docs (step c s)) =
            (if succeeded (Process env fpath fname) s
             then filter (\<lambda>d. d \<noteq> fname) (dict_keys (processed_docs s)) @ [fname]
             else dict_keys (processed_docs s))"
      using new by (auto simp: Process process_document_registry_keys filter_absent)
    with Cons.IH [OF rest] show ?thesis by (simp add: Process)
  next
    case (Delete env fname)
    with Cons.prems have rest: "inserts_only cs (step c s)" by simp
    have "dict_keys (processed_docs (step c s)) =
            (if succeeded (Delete env fname) s
             then filter (\<lambda>d. d \<noteq> fname) (dict_keys (processed_docs s))
             else dict_keys (processed_docs s))"
      by (simp add: Delete delete_document_registry_keys)
    with Cons.IH [OF rest] show ?thesis by (simp add: Delete)
  qed
qed


lemma last_filter: "xs \<noteq> [] \<Longrightarrow> P (last xs) \<Longrightarrow> last (filter P xs) = last xs"
  by (induction xs rule: rev_induct) simp_all

lemma recent_documents_last:
  assumes "\<forall>fn. d = Some fn \<and> fn \<in> set ds \<longrightarrow> last ds = fn"
    and "last_processed d cs s = Some fname"
    and "fname \<in> set (recent_documents ds cs s)"
  shows "last (recent_documents ds cs s) = fname"
  using assms
proof (induction cs arbitrary: d ds s)
  case Nil
  then show ?case by simp
next
  case (Cons c cs)
  show ?case
  proof (cases c)
    case (Process env fpath name)
    let ?d = "if succeeded (Process env fpath name) s then Some name else d"
    let ?ds = "if succeeded (Process env fpath name) s
               then filter (\<lambda>x. x \<noteq> name) ds @ [name] else ds"
    have inv: "\<forall>fn. ?d = Some fn \<and> fn \<in> set ?ds \<longrightarrow> last ?ds = fn"
      using Cons.prems(1) by simp
    from Cons.prems(2,3) have "last_processed ?d cs (step c s) = Some fname"
      and "fname \<in> set (recent_documents ?ds cs (step c s))"
      by (simp_all add: Process)
    with inv have "last (recent_documents ?ds cs (step c s)) = fname"
      by (rule Cons.IH)
    then show ?thesis by (simp add: Process)
  next
    case (Delete env name)
    let ?ds = "if succeeded (Delete env name) s then filter (\<lambda>x. x \<noteq> name) ds else ds"
    have inv: "\<forall>fn. d = Some fn \<and> fn \<in> set ?ds \<longrightarrow> last ?ds = fn"
    proof (intro allI impI)
      fix fn assume a: "d = Some fn \<and> fn \<in> set ?ds"
      show "last ?ds = fn"
      proof (cases "succeeded (Delete env name) s")
        case True
        with a have kept: "fn \<in> set ds" and other: "fn \<noteq> name" by auto
        with a Cons.prems(1) have l: "last ds = fn" by blast
        from kept have "ds \<noteq> []" by auto
        then have "last (filter (\<lambda>x. x \<noteq> name) ds) = last ds"
          using other l by (intro last_filter) simp_all
        with True l show ?thesis by simp
      next
        case False
        with a Cons.prems(1) show ?thesis by simp
      qed
    qed
    from Cons.prems(2,3) have "last_processed d cs (step c s) = Some fname"
      and "fname \<in> set (recent_documents ?ds cs (step c s))"
      by (simp_all add: Delete)
    with inv have "last (recent_documents ?ds cs (step c s)) = fname"
      by (rule Cons.IH)
    then show ?thesis by (simp add: Delete)
  qed
qed

lemma query_default_is_last_key:
  assumes "processed_docs st \<noteq> []" and "last (dict_keys (processed_docs st)) = fname"
  shows "query_document qa q None st = query_document qa q (Some fname) st"
proof -
  have "resolve_filename None (processed_docs st) = Some fname"
    using assms by (simp add: resolve_filename_def given_def)
  moreover have "resolve_filename (Some fname) (processed_docs st) = Some fname"
    using assms by (simp add: resolve_filename_def given_def)
  ultimately show ?thesis using assms(1) by (simp add: query_document_def)
qed

section \<open>Facts about the concrete inputs\<close>

lemma py_strip_example: "py_strip example_text = example_text"
  by (simp add: example_text_def py_strip_def py_isspace_def whitespace_def)

lemma length_example: "length example_text = 62"
  by (simp add: example_text_def)

lemma load_and_split_example:
  "load_and_split whole_text (Inr example_text) = Inr [example_text]"
  by (simp add: load_and_split_def split_text_into_chunks_def whole_text_def
        py_strip_example length_example)
     (simp add: example_text_def)

lemma indexed_a_record: "dict_get (processed_docs indexed_a) ''a.pdf'' = Some record_a"
  by (simp add: indexed_a_def dict_get_def)

lemma indexed_a_index:
  "files indexed_a (vectorstore_path record_a) =
     Some (IndexFile [example_text, ellipsis_chunk, long_chunk])"
  by (simp add: indexed_a_def record_a_def)

lemma indexed_a_source: "files indexed_a (file_path record_a) = Some SourceFile"
  by (simp add: indexed_a_def record_a_def)

lemma index_lost_a_record: "dict_get (processed_docs index_lost_a) ''a.pdf'' = Some record_a"
  by (simp add: index_lost_a_def indexed_a_def dict_get_def)

lemma index_lost_a_index: "files index_lost_a (vectorstore_path record_a) = None"
  by (simp add: index_lost_a_def record_a_def)

lemma record_a_paths: "file_path record_a \<noteq> vectorstore_path record_a"
  by (simp add: record_a_def)

lemma indexed_a_listed: "fst (get_processed_documents indexed_a) = [''a.pdf'']"
  by (simp add: get_processed_documents_def indexed_a_def dict_keys_def)

lemma restarted_a_listed: "fst (get_processed_documents restarted_a) = [''a.pdf'']"
  by (simp add: get_processed_documents_def restarted_a_def indexed_a_def load_metadata_def
        dict_keys_def)

lemma restarted_a_delete: "delete_document env ''a.pdf'' restarted_a = (False, restarted_a)"
  by (simp add: delete_document_def restarted_a_def dict_get_def)

lemma indexed_a_delete_source_locked:
  "fst (delete_document delete_source_locked ''a.pdf'' indexed_a) = False"
  by (simp add: delete_document_def indexed_a_record remove_if_exists_def indexed_a_index
        indexed_a_source record_a_paths delete_source_locked_def delete_ok_def)

lemma chain_top4_indexed_a:
  "chain_top4 [example_text, ellipsis_chunk, long_chunk] q =
     Inr (''answer'',
          [\<lparr>page_content = example_text, doc_metadata = []\<rparr>,
           \<lparr>page_content = ellipsis_chunk, doc_metadata = []\<rparr>,
           \<lparr>page_content = long_chunk, doc_metadata = []\<rparr>])"
  by (simp add: chain_top4_def)

lemma query_indexed_a:
  "query_document chain_top4 q (Some ''a.pdf'') indexed_a = (Inr result_a, indexed_a)"
proof -
  have short: "source_of \<lparr>page_content = example_text, doc_metadata = []\<rparr> =
                 \<lparr>content = example_text, metadata = []\<rparr>"
    by (simp add: source_of_def length_example)
  have dots: "source_of \<lparr>page_content = ellipsis_chunk, doc_metadata = []\<rparr> =
                \<lparr>content = ellipsis_chunk, metadata = []\<rparr>"
    by (simp add: source_of_def ellipsis_chunk_def)
  have long: "source_of \<lparr>page_content = long_chunk, doc_metadata = []\<rparr> =
                \<lparr>content = replicate 200 (CHR ''x'') @ ''...'', metadata = []\<rparr>"
    by (simp add: source_of_def long_chunk_def)
  have resolved: "resolve_filename (Some ''a.pdf'') (processed_docs indexed_a) = Some ''a.pdf''"
    by (simp add: resolve_filename_def given_def)
  have nonempty: "processed_docs indexed_a \<noteq> []"
    by (simp add: indexed_a_def)
  show ?thesis
    by (simp add: query_document_def Let_def nonempty resolved indexed_a_record indexed_a_index
          rag_query_def load_vectorstore_def chain_top4_indexed_a short dots long result_a_def)
qed

lemma env_ok_chunks: "load_and_split (splitter env_ok) (extraction env_ok) = Inr [example_text]"
  by (simp add: env_ok_def load_and_split_example)

lemma env_ok_run:
  "process_document env_ok fpath fname s =
     (Inr True,
      save_metadata Written
        (s\<lparr>files := (files s)(vectorstore_path_of fname \<mapsto> IndexFile [example_text]),
           processed_docs :=
             dict_set fname
               \<lparr>file_path = fpath, vectorstore_path = vectorstore_path_of fname,
                chunks_count = 1, status = ''processed''\<rparr>
               (processed_docs s)\<rparr>))"
proof -
  have "process_document env_ok fpath fname s =
     (Inr True,
      save_metadata (metadata_write env_ok)
        (s\<lparr>files := (files s)(vectorstore_path_of fname \<mapsto> IndexFile [example_text]),
           processed_docs :=
             dict_set fname
               \<lparr>file_path = fpath, vectorstore_path = vectorstore_path_of fname,
                chunks_count = length [example_text], status = ''processed''\<rparr>
               (processed_docs s)\<rparr>))"
    by (rule process_document_success [OF env_ok_chunks]) (simp_all add: env_ok_def)
  then show ?thesis by (simp add: env_ok_def)
qed

lemma env_ok_succeeds: "fst (process_document env_ok fpath fname s) = Inr True"
  by (simp add: env_ok_run)

lemma env_auth_run:
  "process_document env_auth fpath fname s =
     (Inl (ValueError ''OpenAI authentication failed. Please check your API key.''), s)"
  by (simp add: process_document_def env_auth_def env_ok_def load_and_split_example
        create_vectorstore_raises reraise_ValueError_def Let_def)

lemma env_blank_run: "process_document env_blank fpath fname s = (Inr False, s)"
  by (simp add: process_document_def env_blank_def env_ok_def load_and_split_def py_strip_blank
        py_isspace_def whitespace_def)

lemma state_eqI:
  "processed_docs s = processed_docs t \<Longrightarrow> files s = files t \<Longrightarrow>
   metadata_pkl s = metadata_pkl t \<Longrightarrow> (s :: state) = t"
  by simp

lemma step_a_uploaded:
  "snd (process_document env_ok ''uploaded_files/a.pdf'' ''a.pdf'' uploaded) = after_a"
  by (rule state_eqI)
     (auto simp: env_ok_run save_metadata_def uploaded_def after_a_def processed_a_def
        vectorstore_path_of_def)

lemma step_b_after_a:
  "snd (process_document env_ok ''uploaded_files/b.pdf'' ''b.pdf'' after_a) = after_a_b"
  by (rule state_eqI)
     (auto simp: env_ok_run save_metadata_def after_a_def after_a_b_def processed_b_def
        vectorstore_path_of_def)

lemma step_a_after_a_b:
  "snd (process_document env_ok ''uploaded_files/a.pdf'' ''a.pdf'' after_a_b) = after_a_b"
  by (rule state_eqI)
     (auto simp: env_ok_run save_metadata_def after_a_b_def processed_a_def
        vectorstore_path_of_def)

lemma step_delete_b:
  "delete_document delete_ok ''b.pdf'' after_a_b = (True, only_a)"
  by (auto simp: delete_document_def delete_ok_def after_a_b_def only_a_def dict_get_def
        processed_b_def remove_if_exists_def save_metadata_def dict_del_def
        intro!: state_eqI)

lemma step_delete_a:
  "delete_document delete_ok ''a.pdf'' after_a_b = (True, only_b)"
  by (auto simp: delete_document_def delete_ok_def after_a_b_def only_b_def dict_get_def
        processed_a_def remove_if_exists_def save_metadata_def dict_del_def
        intro!: state_eqI)

lemma run_a_b_a: "run run_a_b_a uploaded = after_a_b"
  by (simp add: run_a_b_a_def step_a_uploaded step_b_after_a step_a_after_a_b)

lemma run_a_b_delete_b: "run run_a_b_delete_b uploaded = only_a"
  by (simp add: run_a_b_delete_b_def step_a_uploaded step_b_after_a step_delete_b)

lemma query_one_chunk:
  assumes "processed_docs s \<noteq> []" and "resolve_filename fn_opt (processed_docs s) = Some name"
    and "name \<noteq> []" and "dict_get (processed_docs s) name = Some info"
    and "files s (vectorstore_path info) = Some (IndexFile [example_text])"
  shows "query_document chain_top4 q fn_opt s = (Inr (answer_from name), s)"
proof -
  have short: "source_of \<lparr>page_content = example_text, doc_metadata = []\<rparr> =
                 \<lparr>content = example_text, metadata = []\<rparr>"
    by (simp add: source_of_def length_example)
  show ?thesis
    using assms(1,3)
    by (simp add: query_document_def Let_def assms(2,4,5) rag_query_def load_vectorstore_def
          chain_top4_def short answer_from_def)
qed

lemma query_after_a_b:
  "query_document chain_top4 q None after_a_b = (Inr (answer_from ''b.pdf''), after_a_b)"
  by (rule query_one_chunk [where info = processed_b])
     (simp_all add: after_a_b_def resolve_filename_def given_def dict_keys_def dict_get_def
        processed_b_def)

lemma query_only_a:
  "query_document chain_top4 q None only_a = (Inr (answer_from ''a.pdf''), only_a)"
  by (rule query_one_chunk [where info = processed_a])
     (simp_all add: only_a_def resolve_filename_def given_def dict_keys_def dict_get_def
        processed_a_def)

lemma query_only_b:
  "query_document chain_top4 q None only_b = (Inr (answer_from ''b.pdf''), only_b)"
  by (rule query_one_chunk [where info = processed_b])
     (simp_all add: only_b_def resolve_filename_def given_def dict_keys_def dict_get_def
        processed_b_def)

lemma run_with_failures: "run run_with_failures uploaded = only_b"
  by (simp add: run_with_failures_def step_a_uploaded step_b_after_a env_auth_run
        env_blank_run step_delete_a)

section \<open>Claim C1: the document of a query that names none\<close>

text \<open>
  C1 as stated says that, after every run of \<open>process\<close> and \<open>delete\<close> calls, a query
  that names no document resolves to the document of the last \<open>process\<close> call that
  returned success, also when that call processed a document again. In the run
  \<open>a.pdf\<close>, \<open>b.pdf\<close>, \<open>a.pdf\<close> the last such call is for \<open>a.pdf\<close> and the query is answered
  from \<open>b.pdf\<close>: assigning to a key that the dictionary holds leaves the key where it
  stands. In the run \<open>a.pdf\<close>, \<open>b.pdf\<close>, delete \<open>b.pdf\<close> the last such call is for
  \<open>b.pdf\<close>, whose record is gone, and the query is answered from \<open>a.pdf\<close>.
\<close>

theorem default_query_counterexample:
  "last_processed None run_a_b_a uploaded = Some ''a.pdf'' \<and>
   query_document chain_top4 ''What is X?'' None (run run_a_b_a uploaded) =
     (Inr (answer_from ''b.pdf''), run run_a_b_a uploaded) \<and>
   document (answer_from ''b.pdf'') = ''b.pdf'' \<and>
   last_processed None run_a_b_delete_b uploaded = Some ''b.pdf'' \<and>
   query_document chain_top4 ''What is X?'' None (run run_a_b_delete_b uploaded) =
     (Inr (answer_from ''a.pdf''), run run_a_b_delete_b uploaded) \<and>
   document (answer_from ''a.pdf'') = ''a.pdf''"
proof -
  have again: "last_processed None run_a_b_a uploaded = Some ''a.pdf''"
    by (simp add: run_a_b_a_def env_ok_succeeds step_a_uploaded step_b_after_a)
  have deleted: "last_processed None run_a_b_delete_b uploaded = Some ''b.pdf''"
    by (simp add: run_a_b_delete_b_def env_ok_succeeds step_a_uploaded step_b_after_a)
  from again deleted show ?thesis
    by (simp add: run_a_b_a run_a_b_delete_b query_after_a_b query_only_a answer_from_def)
qed

text \<open>
  C1, amended. Take a run of \<open>process\<close> and \<open>delete\<close> calls, some of which may fail, in
  which every \<open>process\<close> call that returns success is for a document that the registry
  does not hold at the time of the call, and let the document of the last \<open>process\<close> call
  that returned success still be in the registry after the run (it has not been deleted
  since). Then a query that names no document resolves to this document: the name chosen
  is this document's, and the query does exactly what the query that names this document
  does, for every chain and question. (What the query resolves to after a document has
  been processed again is not part of this statement.)
\<close>

theorem default_is_last_inserted_document:
  assumes "inserts_only cs s" and "last_processed None cs s = Some fname"
    and "fname \<in> set (dict_keys (processed_docs (run cs s)))"
  shows "resolve_filename None (processed_docs (run cs s)) = Some fname \<and>
         query_document qa q None (run cs s) = query_document qa q (Some fname) (run cs s)"
proof -
  note keys = run_keys [OF assms(1)]
  have "last (recent_documents (dict_keys (processed_docs s)) cs s) = fname"
    using assms(2,3) by (intro recent_documents_last [of None]) (simp_all add: keys)
  with keys have l: "last (dict_keys (processed_docs (run cs s))) = fname" by simp
  from assms(3) have ne: "processed_docs (run cs s) \<noteq> []" by (auto simp: dict_keys_def)
  from ne l have "resolve_filename None (processed_docs (run cs s)) = Some fname"
    by (simp add: resolve_filename_def given_def)
  with query_default_is_last_key [OF ne l] show ?thesis by simp
qed

theorem default_is_last_inserted_document_witness:
  "inserts_only run_with_failures uploaded \<and>
   last_processed None run_with_failures uploaded = Some ''b.pdf'' \<and>
   run run_with_failures uploaded = only_b \<and>
   resolve_filename None (processed_docs (run run_with_failures uploaded)) = Some ''b.pdf'' \<and>
   query_document chain_top4 ''What is X?'' None (run run_with_failures uploaded) =
     query_document chain_top4 ''What is X?'' (Some ''b.pdf'') (run run_with_failures uploaded) \<and>
   query_document chain_top4 ''What is X?'' None only_b = (Inr (answer_from ''b.pdf''), only_b)"
proof -
  have inserts: "inserts_only run_with_failures uploaded"
    by (simp add: run_with_failures_def env_ok_succeeds step_a_uploaded step_b_after_a
          env_auth_run env_blank_run)
       (simp add: uploaded_def after_a_def dict_keys_def)
  have recent: "last_processed None run_with_failures uploaded = Some ''b.pdf''"
    by (simp add: run_with_failures_def env_ok_succeeds step_a_uploaded step_b_after_a
          env_auth_run env_blank_run)
  have kept: "''b.pdf'' \<in> set (dict_keys (processed_docs (run run_with_failures uploaded)))"
    by (simp add: run_with_failures only_b_def dict_keys_def)
  from default_is_last_inserted_document [OF inserts recent kept, of chain_top4 "''What is X?''"]
    inserts recent run_with_failures query_only_b [of "''What is X?''"]
  show ?thesis by simp
qed

section \<open>Claim C2: an authentication failure of the embedding provider\<close>

text \<open>
  C2. When the chunks of a document are there and the embedding provider raises an
  authentication failure while the index is built, \<open>process_document\<close> raises the
  \<open>ValueError\<close> that carries the authentication message (it does not return \<open>False\<close>), and
  the state is as it was: no record is inserted, no index is written and the registry file
  is not touched. The message is not the one of a quota or service failure.
\<close>

theorem authentication_failure_propagates:
  assumes "load_and_split (splitter env) (extraction env) = Inr chunks" and "chunks \<noteq> []"
    and "embedding env = Some (AuthenticationError m)"
  shows "process_document env fpath fname s =
           (Inl (ValueError ''OpenAI authentication failed. Please check your API key.''), s) \<and>
         classify_provider_error (AuthenticationError m) \<noteq>
           classify_provider_error (RateLimitError m') \<and>
         classify_provider_error (AuthenticationError m) \<noteq>
           classify_provider_error (OpenAIError m')"
  using assms(2)
  by (simp add: process_document_def assms(1) assms(3) create_vectorstore_raises
        reraise_ValueError_def Let_def)

theorem authentication_failure_propagates_witness:
  "load_and_split
     (splitter (env_ok\<lparr>embedding := Some (AuthenticationError ''Incorrect API key provided'')\<rparr>))
     (extraction (env_ok\<lparr>embedding := Some (AuthenticationError ''Incorrect API key provided'')\<rparr>))
     = Inr [example_text] \<and>
   process_document (env_ok\<lparr>embedding := Some (AuthenticationError ''Incorrect API key provided'')\<rparr>)
     ''uploaded_files/a.pdf'' ''a.pdf'' fresh =
   (Inl (ValueError ''OpenAI authentication failed. Please check your API key.''), fresh)"
  using authentication_failure_propagates
          [of "env_ok\<lparr>embedding := Some (AuthenticationError ''Incorrect API key provided'')\<rparr>"
              "[example_text]" "''Incorrect API key provided''" "''uploaded_files/a.pdf''"
              "''a.pdf''" fresh]
  by (simp add: env_ok_def load_and_split_example)

section \<open>Claim C3: a blank question at the /query endpoint\<close>

text \<open>
  C3. The endpoint raises \<open>HTTPException(status_code=400)\<close> for a blank question inside
  its \<open>try\<close>. The exception is not a \<open>ValueError\<close>, so the handler \<open>except Exception\<close>
  of the same \<open>try\<close> takes it and raises \<open>HTTPException(status_code=500)\<close> in its place:
  for every request whose question is empty or consists of whitespace only, the response
  has status code 500, not 400, whatever the chain, the state and \<open>eval\<close> are.
\<close>

theorem blank_question_answered_500:
  assumes "\<forall>c\<in>set (question rq). py_isspace c"
  shows "query_endpoint py_eval qa rq s =
           (Inl (HTTPException 500
                   ''Error querying document: 400: Question cannot be empty''), s) \<and>
         status_code (fst (query_endpoint py_eval qa rq s)) = 500"
  using assms by (simp add: query_endpoint_def py_strip_blank str_nat_400)

theorem blank_question_answered_500_witness:
  "list_all py_isspace ''   '' \<and>
   query_endpoint eval_raises chain_top4 \<lparr>question = ''   '', filename = None\<rparr> indexed_a =
     (Inl (HTTPException 500 ''Error querying document: 400: Question cannot be empty''),
      indexed_a) \<and>
   status_code
     (fst (query_endpoint eval_raises chain_top4 \<lparr>question = ''   '', filename = None\<rparr>
             indexed_a)) = 500 \<and>
   status_code
     (fst (query_endpoint eval_raises chain_top4 \<lparr>question = [], filename = Some ''a.pdf''\<rparr>
             indexed_a)) = 500"
proof -
  have blank: "\<forall>c\<in>set (question \<lparr>question = ''   '', filename = None\<rparr>). py_isspace c"
    by (simp add: py_isspace_def whitespace_def)
  have empty: "\<forall>c\<in>set (question \<lparr>question = [], filename = Some ''a.pdf''\<rparr>). py_isspace c"
    by simp
  from blank_question_answered_500 [OF blank, of eval_raises chain_top4 indexed_a]
       blank_question_answered_500 [OF empty, of eval_raises chain_top4 indexed_a]
  show ?thesis by (simp add: py_isspace_def whitespace_def)
qed

section \<open>Claim C4: a record whose index is gone\<close>

text \<open>
  C4. Let the registry that the query works on (the one in memory, or the one loaded from
  the registry file when the one in memory is empty) hold a record for a document, and let
  the record's index path be absent from the storage. A query for this document, named
  by the caller or taken as the last key when the caller names none, raises
  \<open>FileNotFoundError\<close> with the message \<open>Vectorstore missing for document\<close> and the name.
  The chain is not run: the outcome is the same for every chain. A document name is not
  empty (the empty name is read as no name).
\<close>

theorem missing_index_is_reported:
  assumes "s1 = (if processed_docs s = [] then load_metadata s else s)"
    and "dict_get (processed_docs s1) name = Some info" and "name \<noteq> []"
    and "fn_opt = Some name \<or>
         (fn_opt = None \<or> fn_opt = Some []) \<and> last (dict_keys (processed_docs s1)) = name"
    and "files s (vectorstore_path info) = None"
  shows "query_document qa q fn_opt s =
           (Inl (FileNotFoundError (''Vectorstore missing for document: '' @ name)), s1)"
proof -
  have ne: "processed_docs s1 \<noteq> []" using assms(2) by (rule dict_get_nonempty)
  have res: "resolve_filename fn_opt (processed_docs s1) = Some name"
    using assms(3,4) ne by (auto simp: resolve_filename_def given_def)
  have fs: "files s1 (vectorstore_path info) = None"
    using assms(1,5) by (simp add: files_load_metadata)
  show ?thesis
    using assms(3)
    by (simp add: query_document_def assms(1) [symmetric] Let_def res assms(2) fs)
qed

theorem missing_index_is_reported_witness:
  "dict_get (processed_docs index_lost_a) ''a.pdf'' = Some record_a \<and>
   files index_lost_a (vectorstore_path record_a) = None \<and>
   query_document chain_top4 ''What is X?'' (Some ''a.pdf'') index_lost_a =
     (Inl (FileNotFoundError ''Vectorstore missing for document: a.pdf''), index_lost_a) \<and>
   query_document chain_top4 ''What is X?'' None index_lost_a =
     (Inl (FileNotFoundError ''Vectorstore missing for document: a.pdf''), index_lost_a)"
proof -
  have loaded: "index_lost_a = (if processed_docs index_lost_a = [] then load_metadata index_lost_a
                                else index_lost_a)"
    by (simp add: index_lost_a_def indexed_a_def)
  have name: "''a.pdf'' \<noteq> []" by simp
  have named: "Some ''a.pdf'' = Some ''a.pdf'' \<or>
               (Some ''a.pdf'' = None \<or> Some ''a.pdf'' = Some []) \<and>
               last (dict_keys (processed_docs index_lost_a)) = ''a.pdf''"
    by simp
  have default: "None = Some ''a.pdf'' \<or>
               (None = None \<or> None = Some []) \<and>
               last (dict_keys (processed_docs index_lost_a)) = ''a.pdf''"
    by (simp add: index_lost_a_def indexed_a_def dict_keys_def)
  note by_name = missing_index_is_reported
      [OF loaded index_lost_a_record name named index_lost_a_index, of chain_top4 "''What is X?''"]
  note by_default = missing_index_is_reported
      [OF loaded index_lost_a_record name default index_lost_a_index, of chain_top4 "''What is X?''"]
  from by_name by_default index_lost_a_record index_lost_a_index show ?thesis by simp
qed

section \<open>Claim C5: the sources of a query result\<close>

text \<open>
  C5 as stated says that the full text of a chunk of more than 200 characters is never
  returned. The chunk of 203 characters that ends with three dots is a retrieved chunk of
  more than 200 characters, and the entry returned for it is the chunk itself.
\<close>

theorem full_text_returned_counterexample:
  "chain_top4 [example_text, ellipsis_chunk, long_chunk] ''What is X?'' =
     Inr (''answer'',
          [\<lparr>page_content = example_text, doc_metadata = []\<rparr>,
           \<lparr>page_content = ellipsis_chunk, doc_metadata = []\<rparr>,
           \<lparr>page_content = long_chunk, doc_metadata = []\<rparr>]) \<and>
   query_document chain_top4 ''What is X?'' (Some ''a.pdf'') indexed_a =
     (Inr \<lparr>answer = ''answer'',
           sources = [\<lparr>content = example_text, metadata = []\<rparr>,
                      \<lparr>content = ellipsis_chunk, metadata = []\<rparr>,
                      \<lparr>content = replicate 200 (CHR ''x'') @ ''...'', metadata = []\<rparr>],
           document = ''a.pdf''\<rparr>, indexed_a) \<and>
   200 < length ellipsis_chunk"
proof -
  have "200 < length ellipsis_chunk" by (simp add: ellipsis_chunk_def)
  with chain_top4_indexed_a [of "''What is X?''"] query_indexed_a [of "''What is X?''"]
  show ?thesis by (simp add: result_a_def)
qed

text \<open>
  C5, amended. For every result that \<open>query_document\<close> returns, the chain has returned
  documents for the question, and the sources of the result are, entry by entry, made
  from these documents: the content of an entry is the document's text when the text has
  at most 200 characters, and the first 200 characters followed by three dots otherwise.
  Every content has at most 203 characters. The content is the whole text exactly when
  the text has at most 200 characters, or has 203 characters and ends with three dots
  itself.
\<close>

theorem sources_are_truncated:
  assumes "query_document qa q fn_opt s = (Inr r, s')"
  shows "\<exists>chunks ans docs. qa chunks q = Inr (ans, docs) \<and> length (sources r) = length docs \<and>
           (\<forall>i<length docs.
              (length (page_content (docs ! i)) \<le> 200 \<longrightarrow>
                 content (sources r ! i) = page_content (docs ! i)) \<and>
              (200 < length (page_content (docs ! i)) \<longrightarrow>
                 content (sources r ! i) = take 200 (page_content (docs ! i)) @ ''...'') \<and>
              length (content (sources r ! i)) \<le> 203 \<and>
              ((content (sources r ! i) = page_content (docs ! i)) =
                 (length (page_content (docs ! i)) \<le> 200 \<or>
                  length (page_content (docs ! i)) = 203 \<and>
                  drop 200 (page_content (docs ! i)) = ''...'')))"
proof -
  from query_document_returns [OF assms]
  obtain chunks ans docs where run: "qa chunks q = Inr (ans, docs)"
    and src: "sources r = map source_of docs"
    by blast
  have "\<forall>i<length docs.
              (length (page_content (docs ! i)) \<le> 200 \<longrightarrow>
                 content (sources r ! i) = page_content (docs ! i)) \<and>
              (200 < length (page_content (docs ! i)) \<longrightarrow>
                 content (sources r ! i) = take 200 (page_content (docs ! i)) @ ''...'') \<and>
              length (content (sources r ! i)) \<le> 203 \<and>
              ((content (sources r ! i) = page_content (docs ! i)) =
                 (length (page_content (docs ! i)) \<le> 200 \<or>
                  length (page_content (docs ! i)) = 203 \<and>
                  drop 200 (page_content (docs ! i)) = ''...''))"
    using source_of_content source_of_full_text by (simp add: src)
  with run src show ?thesis by (intro exI [of _ chunks] exI [of _ ans] exI [of _ docs]) simp
qed

theorem sources_are_truncated_witness:
  "query_document chain_top4 ''What is X?'' (Some ''a.pdf'') indexed_a = (Inr result_a, indexed_a) \<and>
   length (sources result_a) = 3 \<and>
   length (content (sources result_a ! 2)) \<le> 203"
proof -
  have run: "query_document chain_top4 ''What is X?'' (Some ''a.pdf'') indexed_a =
               (Inr result_a, indexed_a)"
    by (rule query_indexed_a)
  have three: "length (sources result_a) = 3" by (simp add: result_a_def)
  from sources_are_truncated [OF run]
  obtain docs :: "document list" where len: "length (sources result_a) = length docs"
    and each: "\<forall>i<length docs. length (content (sources result_a ! i)) \<le> 203"
    by blast
  from len three have "2 < length docs" by simp
  with each have "length (content (sources result_a ! 2)) \<le> 203" by blast
  with run three show ?thesis by simp
qed

section \<open>Claim C6: short chunks are never indexed\<close>

text \<open>
  C6. For every text and every splitter, each chunk that \<open>split_text_into_chunks\<close> returns
  has a stripped length above 50; so has each chunk that \<open>load_and_split\<close> hands to
  \<open>process_document\<close>, which passes exactly this list to \<open>create_vectorstore\<close>; and every
  index artifact that is in the storage after a \<open>process_document\<close> call and was not there
  before it holds only chunks of stripped length above 50.
\<close>

theorem short_chunks_never_indexed:
  "(\<forall>c\<in>set (split_text_into_chunks sp text). 50 < length (py_strip c)) \<and>
   (\<forall>chunks. load_and_split sp ex = Inr chunks \<longrightarrow>
      (\<forall>c\<in>set chunks. 50 < length (py_strip c))) \<and>
   (\<forall>p chunks.
      files (snd (process_document env fpath fname s)) p = Some (IndexFile chunks) \<and>
      files s p \<noteq> Some (IndexFile chunks)
      \<longrightarrow> (\<forall>c\<in>set chunks. 50 < length (py_strip c)))"
proof (intro conjI allI impI ballI)
  fix c assume "c \<in> set (split_text_into_chunks sp text)"
  then show "50 < length (py_strip c)" by (rule split_text_into_chunks_long)
next
  fix chunks c assume "load_and_split sp ex = Inr chunks" and "c \<in> set chunks"
  then show "50 < length (py_strip c)" by (rule load_and_split_long)
next
  fix p chunks c
  assume new: "files (snd (process_document env fpath fname s)) p = Some (IndexFile chunks) \<and>
               files s p \<noteq> Some (IndexFile chunks)"
    and c: "c \<in> set chunks"
  from process_document_files [of env fpath fname s] new
  have "load_and_split (splitter env) (extraction env) = Inr chunks"
    by (auto split: if_splits)
  then show "50 < length (py_strip c)" using c by (rule load_and_split_long)
qed

theorem short_chunks_never_indexed_witness:
  "example_text \<in> set (split_text_into_chunks whole_text example_text) \<and>
   load_and_split whole_text (Inr example_text) = Inr [example_text] \<and>
   files (snd (process_document env_ok ''uploaded_files/a.pdf'' ''a.pdf'' fresh))
     (vectorstore_path_of ''a.pdf'') = Some (IndexFile [example_text]) \<and>
   files fresh (vectorstore_path_of ''a.pdf'') \<noteq> Some (IndexFile [example_text]) \<and>
   50 < length (py_strip example_text)"
proof -
  have run: "process_document env_ok ''uploaded_files/a.pdf'' ''a.pdf'' fresh =
               (Inr True,
                save_metadata (metadata_write env_ok)
                  (fresh\<lparr>files := (files fresh)(vectorstore_path_of ''a.pdf'' \<mapsto> IndexFile [example_text]),
                     processed_docs :=
                       dict_set ''a.pdf''
                         \<lparr>file_path = ''uploaded_files/a.pdf'',
                          vectorstore_path = vectorstore_path_of ''a.pdf'',
                          chunks_count = length [example_text], status = ''processed''\<rparr>
                         (processed_docs fresh)\<rparr>))"
    by (rule process_document_success) (simp_all add: env_ok_def load_and_split_example)
  have new: "files (snd (process_document env_ok ''uploaded_files/a.pdf'' ''a.pdf'' fresh))
               (vectorstore_path_of ''a.pdf'') = Some (IndexFile [example_text]) \<and>
             files fresh (vectorstore_path_of ''a.pdf'') \<noteq> Some (IndexFile [example_text])"
    by (simp add: run files_save_metadata) (simp add: fresh_def)
  have member: "example_text \<in> set (split_text_into_chunks whole_text example_text)"
    by (simp add: split_text_into_chunks_def whole_text_def py_strip_example length_example)
  from short_chunks_never_indexed
         [of whole_text example_text "Inr example_text" env_ok "''uploaded_files/a.pdf''"
             "''a.pdf''" fresh]
  have "50 < length (py_strip example_text)"
    using member by blast
  with member new show ?thesis by (simp add: load_and_split_example)
qed

section \<open>Claim C7: a document without text\<close>

text \<open>
  C7. When the extraction of a source document yields a text that is empty or consists of
  whitespace only, \<open>load_and_split\<close> returns the empty list and raises nothing, and
  \<open>process_document\<close> returns \<open>False\<close> with the state as it was: no record is inserted,
  nothing is written to the storage and the registry file is not touched.
\<close>

theorem blank_text_fails_without_record:
  assumes "extraction env = Inr text" and "\<forall>c\<in>set text. py_isspace c"
  shows "load_and_split (splitter env) (extraction env) = Inr [] \<and>
         process_document env fpath fname s = (Inr False, s)"
  using assms by (simp add: process_document_def load_and_split_def py_strip_blank)

theorem blank_text_fails_without_record_witness:
  "extraction (env_ok\<lparr>extraction := Inr ''   ''\<rparr>) = Inr ''   '' \<and>
   list_all py_isspace ''   '' \<and>
   load_and_split (splitter (env_ok\<lparr>extraction := Inr ''   ''\<rparr>))
     (extraction (env_ok\<lparr>extraction := Inr ''   ''\<rparr>)) = Inr [] \<and>
   process_document (env_ok\<lparr>extraction := Inr ''   ''\<rparr>) ''uploaded_files/a.pdf'' ''a.pdf''
     fresh = (Inr False, fresh)"
  using blank_text_fails_without_record
          [of "env_ok\<lparr>extraction := Inr ''   ''\<rparr>" "''   ''" "''uploaded_files/a.pdf''"
              "''a.pdf''" fresh]
  by (simp add: py_isspace_def whitespace_def)

section \<open>Claim C8: delete\<close>

text \<open>
  C8 as stated says that, whenever the id is known, \<open>delete\<close> removes the artifacts and
  the record, persists the registry and returns true. Three runs on the handler that holds
  \<open>a.pdf\<close> say otherwise. When the write of the registry file raises, \<open>delete_document\<close>
  returns \<open>True\<close> and the record is gone from memory, but the registry file still lists
  it: \<open>_save_metadata\<close> drops the exception. When the removal of the source raises,
  \<open>delete_document\<close> returns \<open>False\<close>. After a restart the list operation shows \<open>a.pdf\<close>
  (it loads the registry file), and \<open>delete_document\<close>, which does not load it, returns
  \<open>False\<close> and removes nothing.
\<close>

theorem delete_counterexample:
  "dict_get (processed_docs indexed_a) ''a.pdf'' = Some record_a \<and>
   fst (delete_document delete_registry_unwritable ''a.pdf'' indexed_a) = True \<and>
   processed_docs (snd (delete_document delete_registry_unwritable ''a.pdf'' indexed_a)) = [] \<and>
   metadata_pkl (snd (delete_document delete_registry_unwritable ''a.pdf'' indexed_a)) =
     Pickled [(''a.pdf'', record_a)] \<and>
   fst (delete_document delete_source_locked ''a.pdf'' indexed_a) = False \<and>
   fst (get_processed_documents restarted_a) = [''a.pdf''] \<and>
   delete_document delete_ok ''a.pdf'' restarted_a = (False, restarted_a)"
proof -
  have no_raise: "remove_vectorstore delete_registry_unwritable = None"
    "remove_file delete_registry_unwritable = None"
    by (simp_all add: delete_registry_unwritable_def delete_ok_def)
  have unwritable: "registry_write delete_registry_unwritable =
                 OpenRaises (OtherException ''No space left on device'')"
    by (simp add: delete_registry_unwritable_def)
  have emptied: "dict_del ''a.pdf'' (processed_docs indexed_a) = []"
    by (simp add: indexed_a_def dict_del_def)
  have on_disk: "metadata_pkl indexed_a = Pickled [(''a.pdf'', record_a)]"
    by (simp add: indexed_a_def)
  have run: "delete_document delete_registry_unwritable ''a.pdf'' indexed_a =
               (True,
                save_metadata (registry_write delete_registry_unwritable)
                  (indexed_a\<lparr>files := (files indexed_a)
                                 (vectorstore_path record_a := None, file_path record_a := None),
                     processed_docs := dict_del ''a.pdf'' (processed_docs indexed_a)\<rparr>))"
    by (rule delete_known_run) (simp_all add: indexed_a_record no_raise)
  have unsaved:
    "fst (delete_document delete_registry_unwritable ''a.pdf'' indexed_a) = True \<and>
     processed_docs (snd (delete_document delete_registry_unwritable ''a.pdf'' indexed_a)) = [] \<and>
     metadata_pkl (snd (delete_document delete_registry_unwritable ''a.pdf'' indexed_a)) =
       Pickled [(''a.pdf'', record_a)]"
    by (simp add: run unwritable save_metadata_def emptied on_disk)
  from unsaved indexed_a_record indexed_a_delete_source_locked restarted_a_listed
    restarted_a_delete [of delete_ok]
  show ?thesis by simp
qed

text \<open>
  C8, amended. For every document name: when the list operation does not show the name
  (neither the registry in memory nor, when that is empty, the registry file holds it),
  \<open>delete_document\<close> returns \<open>False\<close>, raises nothing and leaves the state as it was,
  whatever the surroundings do. When the registry in memory holds a record for the name
  and no removal that is attempted raises, \<open>delete_document\<close> returns \<open>True\<close>; afterwards
  neither the record's index path nor its source path is in the storage (whether or not
  they were there before), every other path is as before, the record is removed from the
  registry in memory and every other record is kept. The registry file holds the new
  registry when its write completes; when the write raises, the exception is dropped and
  the file keeps its former content (\<open>open\<close> raised) or is unreadable (the dump raised).
  (What \<open>delete_document\<close> does for a name that only the registry file holds is not part
  of this statement; a removal that raises is the subject of C10.)
\<close>

theorem delete_removes_known_document:
  "(fname \<notin> set (fst (get_processed_documents s)) \<longrightarrow>
      delete_document env fname s = (False, s)) \<and>
   (dict_get (processed_docs s) fname = Some info \<and>
    (files s (vectorstore_path info) = None \<or> remove_vectorstore env = None) \<and>
    (files s (file_path info) = None \<or> file_path info = vectorstore_path info \<or>
     remove_file env = None) \<longrightarrow>
      fst (delete_document env fname s) = True \<and>
      files (snd (delete_document env fname s)) (vectorstore_path info) = None \<and>
      files (snd (delete_document env fname s)) (file_path info) = None \<and>
      (\<forall>p. p \<noteq> vectorstore_path info \<and> p \<noteq> file_path info \<longrightarrow>
           files (snd (delete_document env fname s)) p = files s p) \<and>
      processed_docs (snd (delete_document env fname s)) = dict_del fname (processed_docs s) \<and>
      dict_get (processed_docs (snd (delete_document env fname s))) fname = None \<and>
      (\<forall>k. k \<noteq> fname \<longrightarrow>
           dict_get (processed_docs (snd (delete_document env fname s))) k =
           dict_get (processed_docs s) k) \<and>
      metadata_pkl (snd (delete_document env fname s)) =
        (case registry_write env of
           Written \<Rightarrow> Pickled (dict_del fname (processed_docs s))
         | OpenRaises e \<Rightarrow> metadata_pkl s
         | DumpRaises e \<Rightarrow> Unreadable))"
proof (rule conjI)
  show "fname \<notin> set (fst (get_processed_documents s)) \<longrightarrow>
          delete_document env fname s = (False, s)"
    by (simp add: delete_unlisted)
next
  show "dict_get (processed_docs s) fname = Some info \<and>
    (files s (vectorstore_path info) = None \<or> remove_vectorstore env = None) \<and>
    (files s (file_path info) = None \<or> file_path info = vectorstore_path info \<or>
     remove_file env = None) \<longrightarrow>
      fst (delete_document env fname s) = True \<and>
      files (snd (delete_document env fname s)) (vectorstore_path info) = None \<and>
      files (snd (delete_document env fname s)) (file_path info) = None \<and>
      (\<forall>p. p \<noteq> vectorstore_path info \<and> p \<noteq> file_path info \<longrightarrow>
           files (snd (delete_document env fname s)) p = files s p) \<and>
      processed_docs (snd (delete_document env fname s)) = dict_del fname (processed_docs s) \<and>
      dict_get (processed_docs (snd (delete_document env fname s))) fname = None \<and>
      (\<forall>k. k \<noteq> fname \<longrightarrow>
           dict_get (processed_docs (snd (delete_document env fname s))) k =
           dict_get (processed_docs s) k) \<and>
      metadata_pkl (snd (delete_document env fname s)) =
        (case registry_write env of
           Written \<Rightarrow> Pickled (dict_del fname (processed_docs s))
         | OpenRaises e \<Rightarrow> metadata_pkl s
         | DumpRaises e \<Rightarrow> Unreadable)"
  proof (rule impI)
    assume known: "dict_get (processed_docs s) fname = Some info \<and>
      (files s (vectorstore_path info) = None \<or> remove_vectorstore env = None) \<and>
      (files s (file_path info) = None \<or> file_path info = vectorstore_path info \<or>
       remove_file env = None)"
    from known have held: "dict_get (processed_docs s) fname = Some info"
      by (rule conjunct1)
    from known
    have index_step: "files s (vectorstore_path info) = None \<or> remove_vectorstore env = None"
      by (elim conjE)
    from known
    have source_step: "files s (file_path info) = None \<or>
        file_path info = vectorstore_path info \<or> remove_file env = None"
      by (elim conjE)
    from held index_step source_step
    show "fst (delete_document env fname s) = True \<and>
      files (snd (delete_document env fname s)) (vectorstore_path info) = None \<and>
      files (snd (delete_document env fname s)) (file_path info) = None \<and>
      (\<forall>p. p \<noteq> vectorstore_path info \<and> p \<noteq> file_path info \<longrightarrow>
           files (snd (delete_document env fname s)) p = files s p) \<and>
      processed_docs (snd (delete_document env fname s)) = dict_del fname (processed_docs s) \<and>
      dict_get (processed_docs (snd (delete_document env fname s))) fname = None \<and>
      (\<forall>k. k \<noteq> fname \<longrightarrow>
           dict_get (processed_docs (snd (delete_document env fname s))) k =
           dict_get (processed_docs s) k) \<and>
      metadata_pkl (snd (delete_document env fname s)) =
        (case registry_write env of
           Written \<Rightarrow> Pickled (dict_del fname (processed_docs s))
         | OpenRaises e \<Rightarrow> metadata_pkl s
         | DumpRaises e \<Rightarrow> Unreadable)"
      by (rule delete_known)
  qed
qed

theorem delete_removes_known_document_witness:
  "fst (get_processed_documents indexed_a) = [''a.pdf''] \<and>
   delete_document delete_ok ''b.pdf'' indexed_a = (False, indexed_a) \<and>
   dict_get (processed_docs index_lost_a) ''a.pdf'' = Some record_a \<and>
   files index_lost_a (vectorstore_path record_a) = None \<and>
   fst (delete_document delete_ok ''a.pdf'' index_lost_a) = True \<and>
   files (snd (delete_document delete_ok ''a.pdf'' index_lost_a)) (file_path record_a) = None \<and>
   processed_docs (snd (delete_document delete_ok ''a.pdf'' index_lost_a)) = [] \<and>
   metadata_pkl (snd (delete_document delete_ok ''a.pdf'' index_lost_a)) = Pickled []"
proof -
  have unlisted: "''b.pdf'' \<notin> set (fst (get_processed_documents indexed_a))"
    by (simp add: indexed_a_listed)
  have index_step: "files index_lost_a (vectorstore_path record_a) = None \<or>
               remove_vectorstore delete_ok = None"
    by (simp add: index_lost_a_index)
  have source_step: "files index_lost_a (file_path record_a) = None \<or>
                file_path record_a = vectorstore_path record_a \<or> remove_file delete_ok = None"
    by (simp add: delete_ok_def)
  have written: "registry_write delete_ok = Written"
    by (simp add: delete_ok_def)
  have emptied: "dict_del ''a.pdf'' (processed_docs index_lost_a) = []"
    by (simp add: index_lost_a_def indexed_a_def dict_del_def)
  from delete_removes_known_document [of "''b.pdf''" indexed_a delete_ok record_a] unlisted
  have first: "delete_document delete_ok ''b.pdf'' indexed_a = (False, indexed_a)"
    by blast
  from delete_removes_known_document [of "''a.pdf''" index_lost_a delete_ok record_a]
    index_lost_a_record index_step source_step
  have "fst (delete_document delete_ok ''a.pdf'' index_lost_a) = True \<and>
        files (snd (delete_document delete_ok ''a.pdf'' index_lost_a)) (file_path record_a) = None \<and>
        processed_docs (snd (delete_document delete_ok ''a.pdf'' index_lost_a)) =
          dict_del ''a.pdf'' (processed_docs index_lost_a) \<and>
        metadata_pkl (snd (delete_document delete_ok ''a.pdf'' index_lost_a)) =
          (case registry_write delete_ok of
             Written \<Rightarrow> Pickled (dict_del ''a.pdf'' (processed_docs index_lost_a))
           | OpenRaises e \<Rightarrow> metadata_pkl index_lost_a
           | DumpRaises e \<Rightarrow> Unreadable)"
    by blast
  with indexed_a_listed first index_lost_a_record index_lost_a_index emptied written
  show ?thesis by simp
qed

section \<open>Claim C9: a registry write that fails\<close>



section \<open>Claim C10: a removal that raises during delete\<close>

text \<open>
  C10. Let the registry in memory hold a record for the document. When the index is in
  the storage and its removal raises, \<open>delete_document\<close> returns \<open>False\<close> and the state is
  as it was. When the index step completes (the index is absent, or its removal returns),
  the source is in the storage under another path and its removal raises,
  \<open>delete_document\<close> returns \<open>False\<close>, the registry in memory and the registry file are
  as they were, so the record remains, and the index is gone from the storage.
\<close>

theorem failed_removal_keeps_record:
  "(dict_get (processed_docs s) fname = Some info \<and>
    files s (vectorstore_path info) \<noteq> None \<and> remove_vectorstore env = Some e
      \<longrightarrow> delete_document env fname s = (False, s)) \<and>
   (dict_get (processed_docs s) fname = Some info \<and>
    (files s (vectorstore_path info) = None \<or> remove_vectorstore env = None) \<and>
    file_path info \<noteq> vectorstore_path info \<and>
    files s (file_path info) \<noteq> None \<and> remove_file env = Some e
      \<longrightarrow> delete_document env fname s =
            (False, s\<lparr>files := (files s)(vectorstore_path info := None)\<rparr>) \<and>
          dict_get (processed_docs (snd (delete_document env fname s))) fname = Some info \<and>
          metadata_pkl (snd (delete_document env fname s)) = metadata_pkl s \<and>
          files (snd (delete_document env fname s)) (vectorstore_path info) = None)"
  by (auto simp: delete_document_def remove_if_exists_def remove_absent)

theorem failed_removal_keeps_record_witness:
  "dict_get (processed_docs indexed_a) ''a.pdf'' = Some record_a \<and>
   files indexed_a (vectorstore_path record_a) \<noteq> None \<and>
   files indexed_a (file_path record_a) \<noteq> None \<and>
   remove_vectorstore delete_index_locked = Some (OtherException ''Permission denied'') \<and>
   remove_file delete_source_locked = Some (OtherException ''Permission denied'') \<and>
   delete_document delete_index_locked ''a.pdf'' indexed_a = (False, indexed_a) \<and>
   delete_document delete_source_locked ''a.pdf'' indexed_a =
     (False, indexed_a\<lparr>files := (files indexed_a)(vectorstore_path record_a := None)\<rparr>) \<and>
   dict_get (processed_docs (snd (delete_document delete_source_locked ''a.pdf'' indexed_a)))
     ''a.pdf'' = Some record_a \<and>
   files (snd (delete_document delete_source_locked ''a.pdf'' indexed_a))
     (vectorstore_path record_a) = None"
proof -
  have index_there: "files indexed_a (vectorstore_path record_a) \<noteq> None"
    by (simp add: indexed_a_index)
  have source_there: "files indexed_a (file_path record_a) \<noteq> None"
    by (simp add: indexed_a_source)
  have paths: "file_path record_a \<noteq> vectorstore_path record_a"
    by (simp add: record_a_def)
  have index_locked:
    "remove_vectorstore delete_index_locked = Some (OtherException ''Permission denied'')"
    by (simp add: delete_index_locked_def)
  have source_locked:
    "remove_file delete_source_locked = Some (OtherException ''Permission denied'')"
    "remove_vectorstore delete_source_locked = None"
    by (simp_all add: delete_source_locked_def delete_ok_def)
  from failed_removal_keeps_record
         [of indexed_a "''a.pdf''" record_a delete_index_locked "OtherException ''Permission denied''"]
    indexed_a_record index_there index_locked
  have first: "delete_document delete_index_locked ''a.pdf'' indexed_a = (False, indexed_a)"
    by blast
  from failed_removal_keeps_record
         [of indexed_a "''a.pdf''" record_a delete_source_locked "OtherException ''Permission denied''"]
    indexed_a_record source_there source_locked paths
  have second:
    "delete_document delete_source_locked ''a.pdf'' indexed_a =
       (False, indexed_a\<lparr>files := (files indexed_a)(vectorstore_path record_a := None)\<rparr>) \<and>
     dict_get (processed_docs (snd (delete_document delete_source_locked ''a.pdf'' indexed_a)))
       ''a.pdf'' = Some record_a \<and>
     files (snd (delete_document delete_source_locked ''a.pdf'' indexed_a))
       (vectorstore_path record_a) = None"
    by blast
  from indexed_a_record index_there source_there index_locked source_locked(1) first second
  show ?thesis by blast
qed

end
